theory Spec2Isabelle
  imports Complex_Main
begin

section \<open>The test-plan execution engine of meqa (package mqplan, plan.go)\<close>

subsection \<open>Values and parameter bundles\<close>

text \<open>
  The Go type \<^verbatim>\<open>interface{}\<close> of parameter values is modelled by a small datatype of
  document values: a boolean, an integer of Go's type \<^verbatim>\<open>int\<close>, a finite \<^verbatim>\<open>float64\<close>
  as the real number it denotes, a string, or a sequence. A parameter slot
  \<^verbatim>\<open>map[string]interface{}\<close> is a partial map from strings; the nil map and the empty
  map both read as \<open>Map.empty\<close>, which is all that \<^verbatim>\<open>len(m) == 0\<close> and key lookup
  can observe.
\<close>

datatype val = VBool bool | VInt int | VFloat real | VStr string | VSeq "val list"

text \<open>
  \<^verbatim>\<open>BodyParams interface{}\<close>: the two type assertions of \<^verbatim>\<open>Copy\<close> and \<^verbatim>\<open>Add\<close>
  distinguish a \<^verbatim>\<open>map[string]interface{}\<close> from every other dynamic type, and
  \<^verbatim>\<open>Add\<close> compares against the nil interface.
\<close>

datatype body = Absent | Scalar val | Mapping "string \<rightharpoonup> val"

record TestParams =
  QueryParams :: "string \<rightharpoonup> val"
  FormParams :: "string \<rightharpoonup> val"
  PathParams :: "string \<rightharpoonup> val"
  HeaderParams :: "string \<rightharpoonup> val"
  BodyParams :: body

text \<open>
  Modelled from the spec: \<^verbatim>\<open>mqutil.MapCombine\<close> is called by plan.go but its
  source is not part of the sources at hand. The spec (4.1) says of the mapping slots
  under Copy: source entries win on key conflict, destination-only entries are
  preserved.
\<close>

definition MapCombine :: "(string \<rightharpoonup> val) \<Rightarrow> (string \<rightharpoonup> val) \<Rightarrow> (string \<rightharpoonup> val)" where
  "MapCombine dst src = (\<lambda>k. case src k of Some v \<Rightarrow> Some v | None \<Rightarrow> dst k)"

text \<open>
  Modelled from the spec: \<^verbatim>\<open>mqutil.MapAdd\<close>, likewise absent. The spec (4.1) says
  of the mapping slots under Add: the same merge, but the destination wins on conflict
  (fill-only).
\<close>

definition MapAdd :: "(string \<rightharpoonup> val) \<Rightarrow> (string \<rightharpoonup> val) \<Rightarrow> (string \<rightharpoonup> val)" where
  "MapAdd dst src = (\<lambda>k. case dst k of Some v \<Rightarrow> Some v | None \<Rightarrow> src k)"

text \<open>
  \<^verbatim>\<open>func (dst *TestParams) Copy(src *TestParams)\<close>, plan.go lines 40 to 54. The
  receiver is mutated in place; the model returns it updated. \<^verbatim>\<open>TestParams\<close> is
  embedded in \<^verbatim>\<open>Test\<close>, \<^verbatim>\<open>TestSuite\<close> and \<^verbatim>\<open>TestPlan\<close>, hence the record
  schemes.
\<close>

definition Copy :: "'a TestParams_scheme \<Rightarrow> 'b TestParams_scheme \<Rightarrow> 'a TestParams_scheme" where
  "Copy dst src =
    (let d = dst\<lparr>QueryParams := MapCombine (QueryParams dst) (QueryParams src),
                  FormParams := MapCombine (FormParams dst) (FormParams src),
                  PathParams := MapCombine (PathParams dst) (PathParams src),
                  HeaderParams := MapCombine (HeaderParams dst) (HeaderParams src)\<rparr>
     in case (BodyParams d, BodyParams src) of
          (Mapping caseMap, Mapping testMap) \<Rightarrow> d\<lparr>BodyParams := Mapping (MapCombine caseMap testMap)\<rparr>
        | _ \<Rightarrow> d\<lparr>BodyParams := BodyParams src\<rparr>)"

text \<open>\<^verbatim>\<open>func (dst *TestParams) Add(src *TestParams)\<close>, plan.go lines 57 to 74.\<close>

definition Add :: "'a TestParams_scheme \<Rightarrow> 'b TestParams_scheme \<Rightarrow> 'a TestParams_scheme" where
  "Add dst src =
    (let d = dst\<lparr>QueryParams := MapAdd (QueryParams dst) (QueryParams src),
                  FormParams := MapAdd (FormParams dst) (FormParams src),
                  PathParams := MapAdd (PathParams dst) (PathParams src),
                  HeaderParams := MapAdd (HeaderParams dst) (HeaderParams src)\<rparr>
     in case (BodyParams d, BodyParams src) of
          (Mapping caseMap, Mapping testMap) \<Rightarrow> d\<lparr>BodyParams := Mapping (MapAdd caseMap testMap)\<rparr>
        | _ \<Rightarrow> (if BodyParams d = Absent then d\<lparr>BodyParams := BodyParams src\<rparr> else d))"


subsection \<open>Errors, tests, suites and the plan\<close>

text \<open>
  The error values that plan.go creates or passes on: the two \<^verbatim>\<open>errors.New\<close> messages
  of \<^verbatim>\<open>Add\<close> and \<^verbatim>\<open>Run\<close>, and the errors handed back by the decoders, the file
  system and the step runner, which are opaque to plan.go.
\<close>

datatype error =
    DuplicateName string
  | SuiteNotFound string
  | DecodeError string
  | FileError string
  | StepError string

text \<open>The constants of plan.go, lines 24 to 29.\<close>

definition MeqaInit :: string where "MeqaInit = ''meqa_init''"
definition MeqaFails :: string where "MeqaFails = ''mqfails.jsonl''"

text \<open>
  Modelled from the spec: \<^verbatim>\<open>mqswag.MethodPost\<close> and \<^verbatim>\<open>mqutil.FuzzAll\<close> are constants
  of packages whose source is not part of the sources at hand. The spec names them as
  the POST method (4.5 i) and the wildcard fuzz type "all" (4.3).
\<close>

definition MethodPost :: string where "MethodPost = ''post''"
definition FuzzAll :: string where "FuzzAll = ''all''"

text \<open>
  Modelled from the spec: the counter names \<^verbatim>\<open>mqutil.Passed\<close>, \<^verbatim>\<open>mqutil.Failed\<close>
  and so on are string constants defined outside the sources at hand. They are the keys
  of \<^verbatim>\<open>map[string]int\<close> counters and the spec treats them as separate categories, so
  they are modelled as the constructors of a datatype. A key that was never written
  reads as 0, as in Go.
\<close>

datatype count_key = Passed | Failed | Skipped | SchemaMismatch | Total | FuzzFails | FuzzTotal

type_synonym counts = "count_key \<rightharpoonup> int"

definition count :: "counts \<Rightarrow> count_key \<Rightarrow> int" where
  "count m k = (case m k of None \<Rightarrow> 0 | Some n \<Rightarrow> n)"

definition incr :: "counts \<Rightarrow> count_key \<Rightarrow> counts" where
  "incr m k = m(k \<mapsto> count m k + 1)"

text \<open>
  \<^verbatim>\<open>Test\<close> is declared in test.go, which is not part of the sources at hand; these are
  the fields plan.go reads and writes. \<^verbatim>\<open>TestParams\<close> is embedded, so the record
  extends it. \<open>resp\<close> stands for \<^verbatim>\<open>dup.resp.RawResponse.StatusCode\<close>: the status
  code when both pointers on the way are set, \<open>None\<close> when one of them is nil.
\<close>

record Test = TestParams +
  Name :: string
  Path :: string
  Method :: string
  Ref :: string
  Strict :: bool
  resp :: "int option"
  err :: "error option"
  schemaError :: "error option"
  responseError :: "error option"

type_synonym DB = nat

record TestSuite = TestParams +
  Tests :: "Test list"
  Name :: string
  Strict :: bool
  Username :: string
  Password :: string
  ApiToken :: string
  db :: "DB option"
  comment :: string

text \<open>
  \<^verbatim>\<open>mqswag.Payload\<close> and \<^verbatim>\<open>mqutil.FuzzValue\<close>, both declared outside the sources at
  hand, with the fields plan.go uses.
\<close>

record Payload =
  Endpoint :: string
  Method :: string
  Field :: string
  Value :: val
  FuzzType :: string
  Meta :: "string \<rightharpoonup> val"

record FuzzValue =
  Value :: val
  FuzzType :: string

type_synonym failures = "string \<rightharpoonup> (string \<rightharpoonup> (string \<rightharpoonup> (FuzzValue \<rightharpoonup> bool)))"

text \<open>
  \<^verbatim>\<open>TestPlan\<close>. \<^verbatim>\<open>SuiteMap\<close> and \<^verbatim>\<open>SuiteList\<close> hold the same \<^verbatim>\<open>*TestSuite\<close>
  pointers. The model keeps each suite object once, in \<open>SuiteMap\<close> under the key it was
  registered with, and \<open>SuiteList\<close> is the order of registration: each entry stands
  for the pointer stored under that key. A pointer to a suite is thus its key, and
  dereferencing it reads the current object.
\<close>

record TestPlan = TestParams +
  SuiteMap :: "string \<rightharpoonup> TestSuite"
  SuiteList :: "string list"
  db :: DB
  Strict :: bool
  BaseURL :: string
  Username :: string
  Password :: string
  ApiToken :: string
  resultList :: "Test list"
  ResultCounts :: counts
  OldFailuresMap :: failures
  NewFailures :: "Payload list"
  OtherFailures :: "Payload list"
  comment :: string
  FuzzType :: string
  Repro :: bool


subsection \<open>Collaborators outside plan.go\<close>

text \<open>
  The global \<^verbatim>\<open>Current\<close> plan and the global \<^verbatim>\<open>History\<close> are the state that
  \<^verbatim>\<open>Run\<close> threads through its calls. The mutex of \<^verbatim>\<open>TestHistory\<close> has no
  counterpart: the control flow is sequential.
\<close>

record state =
  plan :: TestPlan
  History :: "Test list"

text \<open>
  Modelled from the spec: the methods of \<^verbatim>\<open>Test\<close> that plan.go calls are defined in
  test.go, which is not part of the sources at hand, and the decoders and the file
  system are outside the repository. Each is a parameter: a function from what it reads
  to what it produces. The spec says that the duplicate is independent of the
  declaration (4.5 a), that parent state is copied onto the duplicate (4.5 c), that
  history resolution consults the history (4.5 d) and that the step runner returns the
  response, the payloads and the errors (4.5 f); none of them changes a declared test
  or a suite. \<open>TestRun\<close> returns the duplicate as the call leaves it, with \<open>resp\<close>,
  \<open>schemaError\<close> and \<open>responseError\<close> filled in, the payloads and the error.

  The decoders and the file reader return an error or a value. \<open>yamlUnmarshal\<close>
  yields the decoded \<^verbatim>\<open>map[string]([]*Test)\<close> as the list of its entries in the order
  in which the \<^verbatim>\<open>range\<close> statement visits them, with test pointers that are not
  nil. \<open>yamlMeta\<close> yields the error together with whatever the decoder left in the
  target map. \<open>OpenError\<close> is the error of opening a file by name, and
  \<open>EncodeError\<close> the error of encoding a record into the file of that name.
  \<open>jsonText\<close> is what the JSON encoder makes of a string: it coerces it to valid
  UTF-8, which leaves a string that is valid as it is.
\<close>

record collaborators =
  yamlUnmarshal :: "string \<Rightarrow> error + (string \<times> Test list) list"
  yamlMeta :: "string \<Rightarrow> error option \<times> (string \<rightharpoonup> val)"
  ReadFile :: "string \<Rightarrow> error + string"
  OpenError :: "string \<Rightarrow> error option"
  EncodeError :: "string \<Rightarrow> Payload \<Rightarrow> error option"
  jsonText :: "string \<Rightarrow> string"
  TestInit :: "TestSuite option \<Rightarrow> Test \<Rightarrow> Test"
  CloneSchema :: "DB \<Rightarrow> DB"
  SchemaDuplicate :: "Test \<Rightarrow> Test"
  CopyParent :: "Test \<Rightarrow> Test \<Rightarrow> Test"
  ResolveHistoryParameters :: "Test \<Rightarrow> Test list \<Rightarrow> Test"
  TestRun :: "state \<Rightarrow> TestSuite \<Rightarrow> Test \<Rightarrow> Test \<times> Payload list \<times> error option"

subsection \<open>The plan loader\<close>

text \<open>The zero value \<^verbatim>\<open>TestSuite{}\<close> that \<^verbatim>\<open>CreateTestSuite\<close> starts from.\<close>

definition zeroTestSuite :: TestSuite where
  "zeroTestSuite = \<lparr>QueryParams = Map.empty, FormParams = Map.empty, PathParams = Map.empty,
     HeaderParams = Map.empty, BodyParams = Absent, Tests = [], Name = [], Strict = False,
     Username = [], Password = [], ApiToken = [], db = None, comment = []\<rparr>"

text \<open>\<^verbatim>\<open>CreateTestSuite\<close>, plan.go lines 95 to 108 (the back pointer to the plan is left out).\<close>

definition CreateTestSuite :: "string \<Rightarrow> Test list \<Rightarrow> TestPlan \<Rightarrow> TestSuite" where
  "CreateTestSuite name tests p =
     (Copy (zeroTestSuite\<lparr>TestSuite.Name := name, Tests := tests\<rparr>) p)
       \<lparr>TestSuite.Strict := TestPlan.Strict p,
        TestSuite.Username := TestPlan.Username p,
        TestSuite.Password := TestPlan.Password p,
        TestSuite.ApiToken := TestPlan.ApiToken p\<rparr>"

text \<open>
  \<^verbatim>\<open>func (plan *TestPlan) Add(testSuite *TestSuite) error\<close>, plan.go lines 141 to 150.
  The result is the returned error and the plan as the call leaves it.
\<close>

definition TestPlan_Add :: "TestSuite \<Rightarrow> TestPlan \<Rightarrow> error option \<times> TestPlan" where
  "TestPlan_Add testSuite p =
     (if SuiteMap p (TestSuite.Name testSuite) \<noteq> None
      then (Some (DuplicateName (TestSuite.Name testSuite)), p)
      else (None, p\<lparr>SuiteMap := (SuiteMap p)(TestSuite.Name testSuite \<mapsto> testSuite),
                      SuiteList := SuiteList p @ [TestSuite.Name testSuite]\<rparr>))"

text \<open>The body of the inner loop over the tests of the \<^verbatim>\<open>meqa_init\<close> entry, lines 163 to 167.\<close>

definition applyGlobal :: "collaborators \<Rightarrow> TestPlan \<Rightarrow> Test \<Rightarrow> TestPlan" where
  "applyGlobal env p t =
     (let t' = TestInit env None t in (Copy p t')\<lparr>TestPlan.Strict := Test.Strict t'\<rparr>)"

text \<open>The loop of \<^verbatim>\<open>AddFromString\<close> over the decoded entries, lines 160 to 180.\<close>

fun addSuites :: "collaborators \<Rightarrow> (string \<times> Test list) list \<Rightarrow> TestPlan \<Rightarrow> error option \<times> TestPlan" where
  "addSuites env [] p = (None, p)"
| "addSuites env ((suiteName, testList) # rest) p =
     (if suiteName = MeqaInit then addSuites env rest (foldl (applyGlobal env) p testList)
      else
        let created = CreateTestSuite suiteName testList p;
            testSuite = created\<lparr>Tests := map (TestInit env (Some created)) testList\<rparr>
        in case TestPlan_Add testSuite p of
             (Some e, p') \<Rightarrow> (Some e, p')
           | (None, p') \<Rightarrow> addSuites env rest p')"

text \<open>\<^verbatim>\<open>AddFromString\<close>, plan.go lines 152 to 181.\<close>

definition AddFromString :: "collaborators \<Rightarrow> string \<Rightarrow> TestPlan \<Rightarrow> error option \<times> TestPlan" where
  "AddFromString env data p =
     (case yamlUnmarshal env data of
        Inl e \<Rightarrow> (Some e, p)
      | Inr suiteMap \<Rightarrow> addSuites env suiteMap p)"

text \<open>
  \<^verbatim>\<open>strings.Split(s, sep)\<close> for a separator \<open>p # ps\<close> that is not empty: the text is
  cut at each occurrence of the separator, found from left to right without overlap.
  \<open>acc\<close> is the current piece, reversed.
\<close>

fun splitGo :: "char \<Rightarrow> string \<Rightarrow> string \<Rightarrow> string \<Rightarrow> string list" where
  "splitGo p ps acc [] = [rev acc]"
| "splitGo p ps acc (c # cs) =
     (if c = p \<and> take (length ps) cs = ps
      then rev acc # splitGo p ps [] (drop (length ps) cs)
      else splitGo p ps (c # acc) cs)"

definition Split :: "string \<Rightarrow> string \<Rightarrow> string list" where
  "Split s sep = (case sep of [] \<Rightarrow> map (\<lambda>c. [c]) s | p # ps \<Rightarrow> splitGo p ps [] s)"

text \<open>\<^verbatim>\<open>func (plan *TestPlan) Init\<close>, plan.go lines 404 to 410 (the swagger handle is left out).\<close>

definition TestPlan_Init :: "DB \<Rightarrow> TestPlan \<Rightarrow> TestPlan" where
  "TestPlan_Init d p = p\<lparr>TestPlan.db := d, SuiteMap := Map.empty, SuiteList := [], resultList := []\<rparr>"

text \<open>
  \<^verbatim>\<open>InitFromFile\<close>, plan.go lines 183 to 197. The value of each
  \<^verbatim>\<open>plan.AddFromString(chunk)\<close> is dropped by the source; only the plan it leaves
  goes on to the next chunk.
\<close>

definition InitFromFile :: "collaborators \<Rightarrow> string \<Rightarrow> DB \<Rightarrow> TestPlan \<Rightarrow> error option \<times> TestPlan" where
  "InitFromFile env path d p =
     (let p1 = TestPlan_Init d p in
      case ReadFile env path of
        Inl e \<Rightarrow> (Some e, p1)
      | Inr data \<Rightarrow> (None, foldl (\<lambda>q chunk. snd (AddFromString env chunk q)) p1 (Split data ''---'')))"


subsection \<open>The failure corpus\<close>






datatype jsonl = Record Payload | Garbage string

type_synonym files = "string \<rightharpoonup> jsonl list"

definition Join :: "string \<Rightarrow> string \<Rightarrow> string" where
  "Join dir name = dir @ ''/'' @ name"

text \<open>Reading a nested map at a key that is missing yields the nil map, which reads as empty.\<close>

definition sub :: "('k \<rightharpoonup> ('j \<rightharpoonup> 'v)) \<Rightarrow> 'k \<Rightarrow> ('j \<rightharpoonup> 'v)" where
  "sub m k = (case m k of None \<Rightarrow> Map.empty | Some x \<Rightarrow> x)"

text \<open>The three initialisations of lines 216 to 224, for endpoint \<open>e\<close>, method \<open>m\<close>, field \<open>f\<close>.\<close>

definition initPath :: "failures \<Rightarrow> string \<Rightarrow> string \<Rightarrow> string \<Rightarrow> failures" where
  "initPath failures e m f =
     (let f1 = (if failures e = None then failures(e \<mapsto> Map.empty) else failures);
          f2 = (if sub f1 e m = None then f1(e \<mapsto> (sub f1 e)(m \<mapsto> Map.empty)) else f1);
          f3 = (if sub (sub f2 e) m f = None
                then f2(e \<mapsto> (sub f2 e)(m \<mapsto> (sub (sub f2 e) m)(f \<mapsto> Map.empty))) else f2)
      in f3)"

text \<open>The assignment \<^verbatim>\<open>failures[e][m][f][fuzzValue] = true\<close> of line 228.\<close>

definition setFailure :: "failures \<Rightarrow> string \<Rightarrow> string \<Rightarrow> string \<Rightarrow> FuzzValue \<Rightarrow> failures" where
  "setFailure failures e m f fv =
     failures(e \<mapsto> (sub failures e)(m \<mapsto> (sub (sub failures e) m)(f \<mapsto>
        (sub (sub (sub failures e) m) f)(fv \<mapsto> True))))"

text \<open>
  The decoding loop of \<^verbatim>\<open>ReadFails\<close>, lines 208 to 232. The end of the list is
  \<^verbatim>\<open>io.EOF\<close>, after which line 233 stores the map that was built. A decoding error
  returns at once: \<^verbatim>\<open>OldFailuresMap\<close> is not assigned, and what was appended to
  \<^verbatim>\<open>OtherFailures\<close> so far stays.
\<close>

fun readRecords :: "jsonl list \<Rightarrow> failures \<Rightarrow> TestPlan \<Rightarrow> error option \<times> TestPlan" where
  "readRecords [] failures p = (None, p\<lparr>OldFailuresMap := failures\<rparr>)"
| "readRecords (Garbage msg # rest) failures p = (Some (DecodeError msg), p)"
| "readRecords (Record v # rest) failures p =
     (let failures1 = initPath failures (Endpoint v) (Payload.Method v) (Field v) in
      if TestPlan.FuzzType p = Payload.FuzzType v \<or> TestPlan.FuzzType p = FuzzAll
      then readRecords rest
             (setFailure failures1 (Endpoint v) (Payload.Method v) (Field v)
                \<lparr>FuzzValue.Value = Payload.Value v, FuzzValue.FuzzType = Payload.FuzzType v\<rparr>) p
      else readRecords rest failures1 (p\<lparr>OtherFailures := OtherFailures p @ [v]\<rparr>))"

text \<open>\<^verbatim>\<open>ReadFails\<close>, plan.go lines 200 to 235.\<close>

definition ReadFails :: "collaborators \<Rightarrow> files \<Rightarrow> string \<Rightarrow> TestPlan \<Rightarrow> error option \<times> TestPlan" where
  "ReadFails env fs path p =
     (case OpenError env (Join path MeqaFails) of
        Some e \<Rightarrow> (Some e, p)
      | None \<Rightarrow>
          (case fs (Join path MeqaFails) of
             None \<Rightarrow> (Some (FileError (Join path MeqaFails)), p)
           | Some content \<Rightarrow> readRecords content Map.empty p))"





subsection \<open>Reporting\<close>

text \<open>
  \<^verbatim>\<open>PrintSummary\<close>, plan.go lines 387 to 402, as the sequence of what it prints: a
  colour code of \<^verbatim>\<open>mqutil\<close>, or a line made of a counter name and a number.
\<close>

datatype colour = GREEN | RED | YELLOW | AQUA | END

datatype printed = Colour colour | Line count_key int

definition PrintSummary :: "TestPlan \<Rightarrow> printed list" where
  "PrintSummary p =
     [Colour GREEN, Line Passed (count (ResultCounts p) Passed),
      Colour RED, Line Failed (count (ResultCounts p) Failed),
      Colour YELLOW, Line Skipped (count (ResultCounts p) Skipped),
      Line SchemaMismatch (count (ResultCounts p) SchemaMismatch),
      Colour AQUA, Line Total (count (ResultCounts p) Total),
      Colour RED, Line FuzzFails (int (length (NewFailures p))),
      Colour AQUA, Line FuzzTotal (count (ResultCounts p) FuzzTotal),
      Colour END]"

text \<open>The numbers printed under a counter name.\<close>

fun reported :: "count_key \<Rightarrow> printed list \<Rightarrow> int list" where
  "reported k [] = []"
| "reported k (Colour c # out) = reported k out"
| "reported k (Line k' n # out) = (if k' = k then n # reported k out else reported k out)"


subsection \<open>The run history\<close>

text \<open>\<^verbatim>\<open>TestHistory.GetTest\<close> and \<^verbatim>\<open>TestHistory.Append\<close>, plan.go lines 497 to 511.\<close>

definition GetTest :: "Test list \<Rightarrow> string \<Rightarrow> Test option" where
  "GetTest h name = find (\<lambda>t. Test.Name t = name) (rev h)"

definition Append :: "Test list \<Rightarrow> Test \<Rightarrow> Test list" where
  "Append h t = h @ [t]"

subsection \<open>The execution engine\<close>

text \<open>
  \<^verbatim>\<open>parentTest *Test\<close> is nil, or a pointer to a test that is not part of the plan,
  or the pointer that a reference step passes down: the test at index \<open>i\<close> of the suite
  registered as \<open>n\<close>, read where it is used. \<^verbatim>\<open>Run\<close> builds the last one only for
  a suite that is registered and an index within its tests, and it never adds or
  removes a suite, so \<open>deref\<close> reads a suite that is there.
\<close>

datatype parent = NoParent | ParentTest Test | ParentAt string nat

definition deref :: "state \<Rightarrow> string \<Rightarrow> TestSuite" where
  "deref st name = the (SuiteMap (plan st) name)"

definition parentOf :: "state \<Rightarrow> parent \<Rightarrow> Test option" where
  "parentOf st pt =
     (case pt of NoParent \<Rightarrow> None | ParentTest t \<Rightarrow> Some t
      | ParentAt n i \<Rightarrow> Some (Tests (deref st n) ! i))"

text \<open>Writing through the pointer \<open>tc\<close>, and through the pointer to its test at index \<open>i\<close>.\<close>

definition updSuite :: "string \<Rightarrow> (TestSuite \<Rightarrow> TestSuite) \<Rightarrow> state \<Rightarrow> state" where
  "updSuite name f st = st\<lparr>plan := (plan st)\<lparr>SuiteMap := (SuiteMap (plan st))(name \<mapsto> f (deref st name))\<rparr>\<rparr>"

definition updTest :: "string \<Rightarrow> nat \<Rightarrow> (Test \<Rightarrow> Test) \<Rightarrow> state \<Rightarrow> state" where
  "updTest name i f st = updSuite name (\<lambda>tc. tc\<lparr>Tests := (Tests tc)[i := f (Tests tc ! i)]\<rparr>) st"

text \<open>
  What \<^verbatim>\<open>Run\<close> yields: its two results with the state it leaves, or the panic of
  reading the status of a response that is nil (line 478), or no result because the
  suites refer to each other without end.
\<close>

datatype outcome = Return counts "error option" state | NilDereference | OutOfFuel

text \<open>
  Lines 445 to 464: the duplicate is made, prepared, appended to the history and run,
  its payloads are added to \<^verbatim>\<open>plan.NewFailures\<close> and it is appended to
  \<^verbatim>\<open>plan.resultList\<close>. The history holds the pointer to the duplicate, so its last
  entry shows the duplicate as it is when the history is read: with the inherited name
  during the run, and as the run left it afterwards. The result is the duplicate, the
  error of its run and the state.
\<close>

definition runConcrete :: "collaborators \<Rightarrow> string \<Rightarrow> parent \<Rightarrow> Test \<Rightarrow> state \<Rightarrow> Test \<times> error option \<times> state" where
  "runConcrete env name parentTest test st =
     (let tc = deref st name;
          dup1 = (SchemaDuplicate env test)\<lparr>Test.Strict := TestSuite.Strict tc\<rparr>;
          dup2 = (case parentOf st parentTest of None \<Rightarrow> dup1 | Some pt \<Rightarrow> CopyParent env dup1 pt);
          dup3 = ResolveHistoryParameters env dup2 (History st);
          dup4 = (case parentOf st parentTest of None \<Rightarrow> dup3 | Some pt \<Rightarrow> dup3\<lparr>Test.Name := Test.Name pt\<rparr>);
          (dup5, payloads, e) = TestRun env (st\<lparr>History := Append (History st) dup4\<rparr>) tc dup4;
          dup6 = dup5\<lparr>err := e\<rparr>;
          new = (if payloads \<noteq> [] then NewFailures (plan st) @ payloads else NewFailures (plan st))
      in (dup6, e,
          st\<lparr>History := Append (History st) dup6,
             plan := (plan st)\<lparr>NewFailures := new, resultList := resultList (plan st) @ [dup6]\<rparr>\<rparr>))"

text \<open>
  \<^verbatim>\<open>func (plan *TestPlan) Run(name string, parentTest *Test)\<close>, plan.go lines 413 to
  485, with fuel for the depth of the recursion through reference steps. \<open>runTests\<close>
  is the loop of lines 428 to 483 from index \<open>i\<close> on; \<open>n\<close> is the length of the slice
  that \<^verbatim>\<open>range\<close> evaluated once. In the reference step the source declares a new
  \<^verbatim>\<open>resultCounts\<close> with \<^verbatim>\<open>:=\<close> inside the block of the \<^verbatim>\<open>if\<close>: it is the one
  returned on error, and it goes out of scope at \<^verbatim>\<open>continue\<close>. The deferred
  \<^verbatim>\<open>tc.db = nil\<close> runs on every return that follows its registration.
\<close>

function Run :: "nat \<Rightarrow> collaborators \<Rightarrow> string \<Rightarrow> parent \<Rightarrow> state \<Rightarrow> outcome"
  and runTests :: "nat \<Rightarrow> collaborators \<Rightarrow> string \<Rightarrow> parent \<Rightarrow> nat \<Rightarrow> nat \<Rightarrow> counts \<Rightarrow> error option \<Rightarrow> state \<Rightarrow> outcome"
where
  "Run 0 env name parentTest st = OutOfFuel"
| "Run (Suc fuel) env name parentTest st =
     (case SuiteMap (plan st) name of
        None \<Rightarrow> Return Map.empty (Some (SuiteNotFound name)) st
      | Some tc \<Rightarrow>
          if Tests tc = [] then Return Map.empty (Some (SuiteNotFound name)) st
          else
            (case runTests fuel env name parentTest (length (Tests tc)) 0
                    [Total \<mapsto> int (length (Tests tc)), Failed \<mapsto> 0] None
                    (updSuite name (\<lambda>c. c\<lparr>TestSuite.db := Some (CloneSchema env (TestPlan.db (plan st)))\<rparr>) st) of
               Return rc e st' \<Rightarrow> Return rc e (updSuite name (\<lambda>c. c\<lparr>TestSuite.db := None\<rparr>) st')
             | NilDereference \<Rightarrow> NilDereference
             | OutOfFuel \<Rightarrow> OutOfFuel))"
| "runTests fuel env name parentTest n i resultCounts tcErr st =
     (if n \<le> i then Return resultCounts tcErr st
      else
        let test = Tests (deref st name) ! i in
        if Ref test \<noteq> [] then
          (case Run fuel env (Ref test) (ParentAt name i)
                  (updTest name i (\<lambda>t. t\<lparr>Test.Strict := TestSuite.Strict (deref st name)\<rparr>) st) of
             Return rc (Some e) st' \<Rightarrow> Return rc (Some e) st'
           | Return rc None st' \<Rightarrow> runTests fuel env name parentTest n (Suc i) resultCounts tcErr st'
           | NilDereference \<Rightarrow> NilDereference
           | OutOfFuel \<Rightarrow> OutOfFuel)
        else if Test.Name test = MeqaInit then
          runTests fuel env name parentTest n (Suc i) resultCounts tcErr
            (updSuite name (\<lambda>c. (Copy c test)\<lparr>TestSuite.Strict := Test.Strict test\<rparr>) st)
        else
          (case runConcrete env name parentTest test st of
             (dup, e, st') \<Rightarrow>
               let rc1 = (if schemaError dup \<noteq> None then incr resultCounts SchemaMismatch else resultCounts);
                   rc2 = (if e \<noteq> None then incr rc1 Failed else incr rc1 Passed);
                   tcErr' = (if e \<noteq> None \<and> tcErr = None then e else tcErr)
               in if Test.Method dup = MethodPost \<and> PathParams dup = Map.empty
                  then (case resp dup of
                          None \<Rightarrow> NilDereference
                        | Some status \<Rightarrow>
                            if 300 \<le> status
                            then Return (rc2(Skipped \<mapsto> count rc2 Skipped + (int (length (Tests (deref st' name))) - int i - 1)))
                                   tcErr' st'
                            else runTests fuel env name parentTest n (Suc i) rc2 tcErr' st')
                  else runTests fuel env name parentTest n (Suc i) rc2 tcErr' st'))"
  by pat_completeness auto
termination
  by (relation "inv_image (less_than <*lex*> less_than <*lex*> less_than)
        (\<lambda>x. case x of
           Inl (fuel, env, name, pt, st) \<Rightarrow> (fuel, 0, 0)
         | Inr (fuel, env, name, pt, n, i, rc, e, st) \<Rightarrow> (fuel, 1, n - i))") auto

subsection \<open>Reading the failure lookup\<close>

text \<open>
  How the nested lookup is observed: whether the three outer keys are there, what the
  four-level index \<^verbatim>\<open>m[e][method][field][fuzzValue]\<close> holds, the key that line 227
  builds from a record, the test of line 226, and the three outer keys of a record.
\<close>

definition pathPresent :: "failures \<Rightarrow> string \<Rightarrow> string \<Rightarrow> string \<Rightarrow> bool" where
  "pathPresent F e m f = (F e \<noteq> None \<and> sub F e m \<noteq> None \<and> sub (sub F e) m f \<noteq> None)"

definition fuzzEntry :: "failures \<Rightarrow> string \<Rightarrow> string \<Rightarrow> string \<Rightarrow> FuzzValue \<Rightarrow> bool option" where
  "fuzzEntry F e m f fv = sub (sub (sub F e) m) f fv"

definition fuzzValueOf :: "Payload \<Rightarrow> FuzzValue" where
  "fuzzValueOf v = \<lparr>FuzzValue.Value = Payload.Value v, FuzzValue.FuzzType = Payload.FuzzType v\<rparr>"

definition matchesType :: "string \<Rightarrow> Payload \<Rightarrow> bool" where
  "matchesType ft v = (ft = Payload.FuzzType v \<or> ft = FuzzAll)"

definition samePath :: "Payload \<Rightarrow> string \<Rightarrow> string \<Rightarrow> string \<Rightarrow> bool" where
  "samePath v e m f = (Endpoint v = e \<and> Payload.Method v = m \<and> Field v = f)"



subsection \<open>What a run leaves of the declarations\<close>

text \<open>
  A declared test after a run compared with the test before it: equal up to the
  \<open>Strict\<close> flag, and equal when the test is not a reference step. A state after a
  run compared with the state before it: the same suite names, and under each name a
  list of tests that compares in this way, entry by entry.
\<close>

definition sameDecl :: "Test \<Rightarrow> Test \<Rightarrow> bool" where
  "sameDecl t t' = (t' = t\<lparr>Test.Strict := Test.Strict t'\<rparr> \<and> (Ref t = [] \<longrightarrow> t' = t))"

definition declKept :: "state \<Rightarrow> state \<Rightarrow> bool" where
  "declKept st st' =
     (\<forall>n. case SuiteMap (plan st) n of
             None \<Rightarrow> SuiteMap (plan st') n = None
           | Some tc \<Rightarrow> (\<exists>tc'. SuiteMap (plan st') n = Some tc' \<and> list_all2 sameDecl (Tests tc) (Tests tc')))"

text \<open>
  The duplicates that a list of concrete steps of the suite \<open>name\<close> produces when they
  run one after the other from the state \<open>st\<close>, each as \<open>runConcrete\<close> leaves it.
\<close>

fun replay :: "collaborators \<Rightarrow> string \<Rightarrow> parent \<Rightarrow> Test list \<Rightarrow> state \<Rightarrow> Test list" where
  "replay env name parentTest [] st = []"
| "replay env name parentTest (t # ts) st =
     (case runConcrete env name parentTest t st of
        (dup, e, st') \<Rightarrow> dup # replay env name parentTest ts st')"

text \<open>The test of line 478 fails, with a response to read: the loop goes on.\<close>

definition continues :: "Test \<Rightarrow> bool" where
  "continues dup =
     (if Test.Method dup = MethodPost \<and> PathParams dup = Map.empty
      then (case resp dup of None \<Rightarrow> False | Some status \<Rightarrow> \<not> 300 \<le> status)
      else True)"

text \<open>
  The classification of lines 465 to 476: the counters after a step that came back
  with the error \<open>e\<close>, and the error that the suite holds on to.
\<close>

definition countStep :: "counts \<Rightarrow> Test \<Rightarrow> error option \<Rightarrow> counts" where
  "countStep rc dup e =
     (let rc1 = (if schemaError dup \<noteq> None then incr rc SchemaMismatch else rc)
      in if e \<noteq> None then incr rc1 Failed else incr rc1 Passed)"

definition firstError :: "error option \<Rightarrow> error option \<Rightarrow> error option" where
  "firstError tcErr e = (if e \<noteq> None \<and> tcErr = None then e else tcErr)"

text \<open>What is read off an outcome: a counter, the executed tests, the tests of a suite.\<close>

definition countAfter :: "outcome \<Rightarrow> count_key \<Rightarrow> int option" where
  "countAfter out k = (case out of Return rc e st \<Rightarrow> Some (count rc k) | _ \<Rightarrow> None)"

definition resultsAfter :: "outcome \<Rightarrow> Test list option" where
  "resultsAfter out = (case out of Return rc e st \<Rightarrow> Some (resultList (plan st)) | _ \<Rightarrow> None)"

definition testsAfter :: "outcome \<Rightarrow> string \<Rightarrow> Test list option" where
  "testsAfter out name = (case out of Return rc e st \<Rightarrow> Some (Tests (deref st name)) | _ \<Rightarrow> None)"

subsection \<open>Example inputs\<close>

text \<open>Two parameter bundles that overlap on the query key \<open>b\<close> and the body key \<open>y\<close>.\<close>

definition d0 :: TestParams where
  "d0 = \<lparr>QueryParams = [''a'' \<mapsto> VInt 1, ''b'' \<mapsto> VInt 2], FormParams = Map.empty,
         PathParams = [''id'' \<mapsto> VInt 7], HeaderParams = Map.empty,
         BodyParams = Mapping [''x'' \<mapsto> VInt 1, ''y'' \<mapsto> VInt 2]\<rparr>"

definition s0 :: TestParams where
  "s0 = \<lparr>QueryParams = [''b'' \<mapsto> VInt 3, ''c'' \<mapsto> VInt 4], FormParams = Map.empty,
         PathParams = Map.empty, HeaderParams = [''h'' \<mapsto> VStr ''v''],
         BodyParams = Mapping [''y'' \<mapsto> VInt 5]\<rparr>"

text \<open>
  Collaborators that do nothing surprising: no file can be read as text, every file
  opens, every record encodes, and a step comes back with status 200 and no findings.
\<close>

definition env0 :: collaborators where
  "env0 = \<lparr>yamlUnmarshal = (\<lambda>s. Inr []), yamlMeta = (\<lambda>s. (None, Map.empty)),
     ReadFile = (\<lambda>s. Inl (FileError s)), OpenError = (\<lambda>s. None), EncodeError = (\<lambda>s v. None),
     jsonText = (\<lambda>s. s),
     TestInit = (\<lambda>tc t. t), CloneSchema = (\<lambda>d. d), SchemaDuplicate = (\<lambda>t. t),
     CopyParent = (\<lambda>d pt. d), ResolveHistoryParameters = (\<lambda>d h. d),
     TestRun = (\<lambda>st tc d. (d\<lparr>resp := Some 200\<rparr>, [], None))\<rparr>"

text \<open>The zero value of \<^verbatim>\<open>TestPlan\<close>, configured for the fuzz type \<open>x\<close>.\<close>

definition plan0 :: TestPlan where
  "plan0 = \<lparr>QueryParams = Map.empty, FormParams = Map.empty, PathParams = Map.empty,
     HeaderParams = Map.empty, BodyParams = Absent, SuiteMap = Map.empty, SuiteList = [], db = 0,
     Strict = False, BaseURL = [], Username = [], Password = [], ApiToken = [], resultList = [],
     ResultCounts = Map.empty, OldFailuresMap = Map.empty, NewFailures = [], OtherFailures = [],
     comment = [], FuzzType = ''x'', Repro = False\<rparr>"

text \<open>Two failure records for the same endpoint, method and field, of fuzz types \<open>x\<close> and \<open>y\<close>.\<close>

definition payA :: Payload where
  "payA = \<lparr>Endpoint = ''/pets'', Method = ''post'', Field = ''name'', Value = VStr ''a'',
            FuzzType = ''x'', Meta = Map.empty\<rparr>"

definition payB :: Payload where
  "payB = \<lparr>Endpoint = ''/pets'', Method = ''post'', Field = ''name'', Value = VFloat 0,
            FuzzType = ''y'', Meta = Map.empty\<rparr>"

text \<open>The zero value of \<^verbatim>\<open>Test\<close>.\<close>

definition test0 :: Test where
  "test0 = \<lparr>QueryParams = Map.empty, FormParams = Map.empty, PathParams = Map.empty,
     HeaderParams = Map.empty, BodyParams = Absent, Test.Name = [], Path = [], Test.Method = [], Ref = [],
     Test.Strict = False, resp = None, err = None, schemaError = None, responseError = None\<rparr>"

text \<open>
  A loader environment with two plan files. The chunk \<open>a\<close> declares the suite \<open>A\<close>,
  the chunk \<open>b\<close> the suite \<open>B\<close>, and nothing else decodes. \<open>plan.yml\<close> has a chunk
  that does not decode and repeats \<open>A\<close>; \<open>dup.yml\<close> only repeats \<open>A\<close>.
\<close>

definition envL :: collaborators where
  "envL = env0\<lparr>
     ReadFile := (\<lambda>s. if s = ''plan.yml'' then Inr ''a---!---a---b''
                       else if s = ''dup.yml'' then Inr ''a---a---b'' else Inl (FileError s)),
     yamlUnmarshal := (\<lambda>c. if c = ''a'' then Inr [(''A'', [test0\<lparr>Test.Name := ''get''\<rparr>])]
                            else if c = ''b'' then Inr [(''B'', [test0\<lparr>Test.Name := ''put''\<rparr>])]
                            else Inl (DecodeError c))\<rparr>"

text \<open>
  A plan with three suites. \<open>outer\<close> is strict and has one reference step to
  \<open>inner\<close>, which has two concrete steps. \<open>crud\<close> has three concrete steps, the
  second one a POST without path parameters.
\<close>

definition refStep :: Test where
  "refStep = test0\<lparr>Test.Name := ''use'', Ref := ''inner''\<rparr>"

definition stR :: state where
  "stR = \<lparr>plan = plan0\<lparr>
       SuiteMap := [''outer'' \<mapsto> zeroTestSuite\<lparr>TestSuite.Name := ''outer'', Tests := [refStep],
                                                 TestSuite.Strict := True\<rparr>,
                    ''inner'' \<mapsto> zeroTestSuite\<lparr>TestSuite.Name := ''inner'',
                                   Tests := [test0\<lparr>Test.Name := ''get'', Test.Method := ''get''\<rparr>,
                                             test0\<lparr>Test.Name := ''put'', Test.Method := ''put''\<rparr>]\<rparr>,
                    ''crud'' \<mapsto> zeroTestSuite\<lparr>TestSuite.Name := ''crud'',
                                   Tests := [test0\<lparr>Test.Name := ''list'', Test.Method := ''get''\<rparr>,
                                             test0\<lparr>Test.Name := ''create'', Test.Method := ''post''\<rparr>,
                                             test0\<lparr>Test.Name := ''read'', Test.Method := ''get''\<rparr>]\<rparr>],
       SuiteList := [''outer'', ''inner'', ''crud'']\<rparr>,
     History = []\<rparr>"

text \<open>A step runner under which every POST comes back with status 500 and an error.\<close>

definition envR :: collaborators where
  "envR = env0\<lparr>TestRun := (\<lambda>st tc d.
      if Test.Method d = ''post''
      then (d\<lparr>resp := Some 500, responseError := Some (StepError ''500'')\<rparr>, [], Some (StepError ''500''))
      else (d\<lparr>resp := Some 200\<rparr>, [], None))\<rparr>"



section \<open>Properties\<close>

subsection \<open>Lemmas about the failure corpus\<close>

lemma fuzzEntry_initPath: "fuzzEntry (initPath F e m f) e' m' f' fv = fuzzEntry F e' m' f' fv"
  by (auto simp: fuzzEntry_def initPath_def sub_def Let_def split: option.splits)

lemma pathPresent_initPath:
  "pathPresent (initPath F e m f) e' m' f' = (pathPresent F e' m' f' \<or> (e' = e \<and> m' = m \<and> f' = f))"
  by (auto simp: pathPresent_def initPath_def sub_def Let_def split: option.splits if_splits)

lemma fuzzEntry_setFailure:
  "fuzzEntry (setFailure F e m f fv) e' m' f' fv' =
     (if e' = e \<and> m' = m \<and> f' = f \<and> fv' = fv then Some True else fuzzEntry F e' m' f' fv')"
  by (auto simp: fuzzEntry_def setFailure_def sub_def split: option.splits)

lemma pathPresent_setFailure:
  "pathPresent (setFailure F e m f fv) e' m' f' = (pathPresent F e' m' f' \<or> (e' = e \<and> m' = m \<and> f' = f))"
  by (auto simp: pathPresent_def setFailure_def sub_def split: option.splits if_splits)

lemma readRecords_ok:
  "fst (readRecords (map Record vs) F p) = None"
  by (induction vs arbitrary: F p) (auto simp: Let_def)


lemma readRecords_step:
  "readRecords (Record v # rest) F p =
     (if matchesType (TestPlan.FuzzType p) v
      then readRecords rest (setFailure (initPath F (Endpoint v) (Payload.Method v) (Field v))
             (Endpoint v) (Payload.Method v) (Field v) (fuzzValueOf v)) p
      else readRecords rest (initPath F (Endpoint v) (Payload.Method v) (Field v))
             (p\<lparr>OtherFailures := OtherFailures p @ [v]\<rparr>))"
  by (simp add: Let_def matchesType_def fuzzValueOf_def)

lemma readRecords_entry:
  "fuzzEntry (OldFailuresMap (snd (readRecords (map Record vs) F p))) e m f fv =
     (if \<exists>v \<in> set vs. matchesType (TestPlan.FuzzType p) v \<and> samePath v e m f \<and> fuzzValueOf v = fv
      then Some True else fuzzEntry F e m f fv)"
proof (induction vs arbitrary: F p)
  case Nil
  then show ?case by simp
next
  case (Cons v vs)
  show ?case
  proof (cases "matchesType (TestPlan.FuzzType p) v")
    case True
    have "fuzzEntry (OldFailuresMap (snd (readRecords (map Record (v # vs)) F p))) e m f fv =
        (if \<exists>w \<in> set vs. matchesType (TestPlan.FuzzType p) w \<and> samePath w e m f \<and> fuzzValueOf w = fv
         then Some True
         else if e = Endpoint v \<and> m = Payload.Method v \<and> f = Field v \<and> fv = fuzzValueOf v then Some True
         else fuzzEntry F e m f fv)"
      using True by (simp only: list.map readRecords_step Cons.IH fuzzEntry_setFailure fuzzEntry_initPath if_True)
    then show ?thesis using True by (auto simp: samePath_def)
  next
    case False
    have "fuzzEntry (OldFailuresMap (snd (readRecords (map Record (v # vs)) F p))) e m f fv =
        (if \<exists>w \<in> set vs. matchesType (TestPlan.FuzzType (p\<lparr>OtherFailures := OtherFailures p @ [v]\<rparr>)) w
               \<and> samePath w e m f \<and> fuzzValueOf w = fv
         then Some True else fuzzEntry F e m f fv)"
      using False by (simp only: list.map readRecords_step Cons.IH fuzzEntry_initPath if_False)
    then show ?thesis using False by auto
  qed
qed

lemma readRecords_present:
  "pathPresent (OldFailuresMap (snd (readRecords (map Record vs) F p))) e m f =
     (pathPresent F e m f \<or> (\<exists>v \<in> set vs. samePath v e m f))"
proof (induction vs arbitrary: F p)
  case Nil
  then show ?case by simp
next
  case (Cons v vs)
  have "pathPresent (OldFailuresMap (snd (readRecords (map Record (v # vs)) F p))) e m f =
      ((pathPresent F e m f \<or> (e = Endpoint v \<and> m = Payload.Method v \<and> f = Field v))
        \<or> (\<exists>w \<in> set vs. samePath w e m f))"
  proof (cases "matchesType (TestPlan.FuzzType p) v")
    case True
    have "pathPresent (OldFailuresMap (snd (readRecords (map Record (v # vs)) F p))) e m f =
      (((pathPresent F e m f \<or> (e = Endpoint v \<and> m = Payload.Method v \<and> f = Field v))
         \<or> (e = Endpoint v \<and> m = Payload.Method v \<and> f = Field v))
        \<or> (\<exists>w \<in> set vs. samePath w e m f))"
      using True
      by (simp only: list.map readRecords_step Cons.IH pathPresent_setFailure pathPresent_initPath if_True)
    then show ?thesis by blast
  next
    case False
    then show ?thesis
      by (simp only: list.map readRecords_step Cons.IH pathPresent_initPath if_False)
  qed
  then show ?case by (auto simp: samePath_def)
qed

subsection \<open>Lemmas about the loader\<close>

lemma Copy_more: "TestParams.more (Copy dst src) = TestParams.more dst"
  by (simp add: Copy_def Let_def split: body.splits)

lemma Copy_plan_suites: "SuiteMap (Copy p src) = SuiteMap p \<and> SuiteList (Copy p src) = SuiteList p"
  by (simp add: Copy_def Let_def split: body.splits)

lemma applyGlobal_suites:
  "SuiteMap (applyGlobal env p t) = SuiteMap p \<and> SuiteList (applyGlobal env p t) = SuiteList p"
  by (simp add: applyGlobal_def Let_def Copy_plan_suites)

lemma foldl_applyGlobal_suites:
  "SuiteMap (foldl (applyGlobal env) p ts) = SuiteMap p \<and> SuiteList (foldl (applyGlobal env) p ts) = SuiteList p"
  by (induction ts arbitrary: p) (simp_all add: applyGlobal_suites)

lemma created_Name: "TestSuite.Name (CreateTestSuite name tests p) = name"
  by (simp add: CreateTestSuite_def Copy_def Let_def zeroTestSuite_def split: body.splits)

lemma addSuites_Cons:
  "addSuites env ((suiteName, testList) # rest) p =
     (if suiteName = MeqaInit then addSuites env rest (foldl (applyGlobal env) p testList)
      else if SuiteMap p suiteName \<noteq> None then (Some (DuplicateName suiteName), p)
      else addSuites env rest
             (p\<lparr>SuiteMap := (SuiteMap p)(suiteName \<mapsto>
                    (CreateTestSuite suiteName testList p)
                      \<lparr>Tests := map (TestInit env (Some (CreateTestSuite suiteName testList p))) testList\<rparr>),
                 SuiteList := SuiteList p @ [suiteName]\<rparr>))"
  by (simp add: Let_def TestPlan_Add_def created_Name)

declare addSuites.simps(2) [simp del]

lemma addSuites_keeps:
  "SuiteMap p n = Some s \<Longrightarrow> SuiteMap (snd (addSuites env sm p)) n = Some s"
proof (induction sm arbitrary: p)
  case Nil
  then show ?case by simp
next
  case (Cons a sm)
  obtain suiteName testList where a: "a = (suiteName, testList)" by (cases a)
  show ?case
    using Cons.prems
    by (auto simp only: a addSuites_Cons foldl_applyGlobal_suites intro!: Cons.IH split: if_splits) auto
qed

lemma addSuites_list:
  "SuiteMap p n \<noteq> None \<Longrightarrow>
   filter (\<lambda>x. x = n) (SuiteList (snd (addSuites env sm p))) = filter (\<lambda>x. x = n) (SuiteList p)"
proof (induction sm arbitrary: p)
  case Nil
  then show ?case by simp
next
  case (Cons a sm)
  obtain suiteName testList where a: "a = (suiteName, testList)" by (cases a)
  show ?case
  proof (cases "suiteName = MeqaInit")
    case True
    then show ?thesis
      using Cons.prems Cons.IH [of "foldl (applyGlobal env) p testList"]
      by (simp add: a addSuites_Cons foldl_applyGlobal_suites)
  next
    case False
    show ?thesis
    proof (cases "SuiteMap p suiteName \<noteq> None")
      case True
      then show ?thesis using False by (simp add: a addSuites_Cons)
    next
      case nodup: False
      let ?p' = "p\<lparr>SuiteMap := (SuiteMap p)(suiteName \<mapsto>
                    (CreateTestSuite suiteName testList p)
                      \<lparr>Tests := map (TestInit env (Some (CreateTestSuite suiteName testList p))) testList\<rparr>),
                 SuiteList := SuiteList p @ [suiteName]\<rparr>"
      have ne: "suiteName \<noteq> n" using nodup Cons.prems by auto
      have "SuiteMap ?p' n \<noteq> None" using Cons.prems ne by simp
      from Cons.IH [OF this] show ?thesis
        using False nodup ne by (simp add: a addSuites_Cons)
    qed
  qed
qed

lemma addSuites_duplicate:
  "\<exists>x \<in> set sm. fst x \<noteq> MeqaInit \<and> SuiteMap p (fst x) \<noteq> None \<Longrightarrow>
   \<exists>m. fst (addSuites env sm p) = Some (DuplicateName m) \<and> m \<in> fst ` set sm"
proof (induction sm arbitrary: p)
  case Nil
  then show ?case by simp
next
  case (Cons a sm)
  obtain suiteName testList where a: "a = (suiteName, testList)" by (cases a)
  show ?case
  proof (cases "suiteName = MeqaInit")
    case True
    then have "\<exists>x \<in> set sm. fst x \<noteq> MeqaInit \<and> SuiteMap (foldl (applyGlobal env) p testList) (fst x) \<noteq> None"
      using Cons.prems by (auto simp: a foldl_applyGlobal_suites)
    from Cons.IH [OF this] show ?thesis using True by (auto simp: a addSuites_Cons)
  next
    case False
    show ?thesis
    proof (cases "SuiteMap p suiteName \<noteq> None")
      case True
      then show ?thesis using False by (simp add: a addSuites_Cons)
    next
      case nodup: False
      let ?p' = "p\<lparr>SuiteMap := (SuiteMap p)(suiteName \<mapsto>
                    (CreateTestSuite suiteName testList p)
                      \<lparr>Tests := map (TestInit env (Some (CreateTestSuite suiteName testList p))) testList\<rparr>),
                 SuiteList := SuiteList p @ [suiteName]\<rparr>"
      have "\<exists>x \<in> set sm. fst x \<noteq> MeqaInit \<and> SuiteMap ?p' (fst x) \<noteq> None"
        using Cons.prems nodup by (auto simp: a)
      from Cons.IH [OF this] show ?thesis using False nodup by (auto simp: a addSuites_Cons)
    qed
  qed
qed

lemma addSuites_fresh:
  "distinct (map fst sm) \<Longrightarrow> \<forall>x \<in> set sm. SuiteMap p (fst x) = None \<Longrightarrow> fst (addSuites env sm p) = None"
proof (induction sm arbitrary: p)
  case Nil
  then show ?case by simp
next
  case (Cons a sm)
  obtain suiteName testList where a: "a = (suiteName, testList)" by (cases a)
  show ?case
  proof (cases "suiteName = MeqaInit")
    case True
    have "\<forall>x \<in> set sm. SuiteMap (foldl (applyGlobal env) p testList) (fst x) = None"
      using Cons.prems by (simp add: foldl_applyGlobal_suites)
    with Cons.IH [of "foldl (applyGlobal env) p testList"] Cons.prems(1) show ?thesis
      using True by (simp add: a addSuites_Cons)
  next
    case False
    let ?p' = "p\<lparr>SuiteMap := (SuiteMap p)(suiteName \<mapsto>
                  (CreateTestSuite suiteName testList p)
                    \<lparr>Tests := map (TestInit env (Some (CreateTestSuite suiteName testList p))) testList\<rparr>),
               SuiteList := SuiteList p @ [suiteName]\<rparr>"
    have "\<forall>x \<in> set sm. SuiteMap ?p' (fst x) = None"
      using Cons.prems by (auto simp: a)
    with Cons.IH [of ?p'] Cons.prems show ?thesis
      using False by (simp add: a addSuites_Cons)
  qed
qed

lemma AddFromString_keeps:
  "SuiteMap p n = Some s \<Longrightarrow> SuiteMap (snd (AddFromString env chunk p)) n = Some s"
  by (simp add: AddFromString_def addSuites_keeps split: sum.splits)

lemma load_chunks_keeps:
  "SuiteMap p n = Some s \<Longrightarrow>
   SuiteMap (foldl (\<lambda>q chunk. snd (AddFromString env chunk q)) p chunks) n = Some s"
  by (induction chunks arbitrary: p) (simp_all add: AddFromString_keeps)

subsection \<open>Lemmas about the execution engine\<close>

declare Run.simps [simp del] runTests.simps [simp del]

lemma runTests_end:
  "n \<le> i \<Longrightarrow> runTests fuel env name pt n i rc tcErr st = Return rc tcErr st"
  by (subst runTests.simps) simp

lemma runTests_ref:
  "i < n \<Longrightarrow> Ref (Tests (deref st name) ! i) \<noteq> [] \<Longrightarrow>
   runTests fuel env name pt n i rc tcErr st =
     (case Run fuel env (Ref (Tests (deref st name) ! i)) (ParentAt name i)
             (updTest name i (\<lambda>t. t\<lparr>Test.Strict := TestSuite.Strict (deref st name)\<rparr>) st) of
        Return rc' (Some e) st' \<Rightarrow> Return rc' (Some e) st'
      | Return rc' None st' \<Rightarrow> runTests fuel env name pt n (Suc i) rc tcErr st'
      | NilDereference \<Rightarrow> NilDereference
      | OutOfFuel \<Rightarrow> OutOfFuel)"
  by (subst runTests.simps) (simp add: Let_def)

lemma runTests_init:
  "i < n \<Longrightarrow> Ref (Tests (deref st name) ! i) = [] \<Longrightarrow> Test.Name (Tests (deref st name) ! i) = MeqaInit \<Longrightarrow>
   runTests fuel env name pt n i rc tcErr st =
     runTests fuel env name pt n (Suc i) rc tcErr
       (updSuite name (\<lambda>c. (Copy c (Tests (deref st name) ! i))
                              \<lparr>TestSuite.Strict := Test.Strict (Tests (deref st name) ! i)\<rparr>) st)"
  by (subst runTests.simps) (simp add: Let_def)

lemma runTests_concrete:
  "i < n \<Longrightarrow> Ref (Tests (deref st name) ! i) = [] \<Longrightarrow> Test.Name (Tests (deref st name) ! i) \<noteq> MeqaInit \<Longrightarrow>
   runConcrete env name pt (Tests (deref st name) ! i) st = (dup, e, st') \<Longrightarrow>
   runTests fuel env name pt n i rc tcErr st =
     (if Test.Method dup = MethodPost \<and> PathParams dup = Map.empty
      then (case resp dup of
              None \<Rightarrow> NilDereference
            | Some status \<Rightarrow>
                if 300 \<le> status
                then Return ((countStep rc dup e)(Skipped \<mapsto> count (countStep rc dup e) Skipped
                               + (int (length (Tests (deref st' name))) - int i - 1)))
                       (firstError tcErr e) st'
                else runTests fuel env name pt n (Suc i) (countStep rc dup e) (firstError tcErr e) st')
      else runTests fuel env name pt n (Suc i) (countStep rc dup e) (firstError tcErr e) st')"
  by (subst runTests.simps) (auto simp: Let_def countStep_def firstError_def split: option.splits)

lemma runConcrete_state:
  "runConcrete env name pt t st = (dup, e, st') \<Longrightarrow>
     SuiteMap (plan st') = SuiteMap (plan st)
   \<and> resultList (plan st') = resultList (plan st) @ [dup]
   \<and> History st' = History st @ [dup]
   \<and> TestPlan.db (plan st') = TestPlan.db (plan st)"
  by (auto simp: runConcrete_def Let_def Append_def split: prod.splits)

lemma runConcrete_deref:
  "runConcrete env name pt t st = (dup, e, st') \<Longrightarrow> deref st' n = deref st n"
  by (simp add: deref_def runConcrete_state)

lemma count_incr: "count (incr rc k) k' = (if k' = k then count rc k + 1 else count rc k')"
  by (simp add: count_def incr_def)

lemma sameDecl_refl: "sameDecl t t"
  by (simp add: sameDecl_def)

lemma sameDecl_trans: "sameDecl a b \<Longrightarrow> sameDecl b c \<Longrightarrow> sameDecl a c"
proof -
  assume ab: "sameDecl a b" and bc: "sameDecl b c"
  have b: "b = a\<lparr>Test.Strict := Test.Strict b\<rparr>" using ab by (simp add: sameDecl_def)
  have c: "c = b\<lparr>Test.Strict := Test.Strict c\<rparr>" using bc by (simp add: sameDecl_def)
  have "c = a\<lparr>Test.Strict := Test.Strict c\<rparr>" by (subst c, subst b) simp
  moreover have "Ref a = [] \<longrightarrow> c = a" using ab bc by (auto simp: sameDecl_def)
  ultimately show ?thesis by (simp add: sameDecl_def)
qed

lemma list_all2_sameDecl_refl: "list_all2 sameDecl ts ts"
  by (simp add: list_all2_refl sameDecl_refl)

lemma list_all2_sameDecl_trans:
  "list_all2 sameDecl a b \<Longrightarrow> list_all2 sameDecl b c \<Longrightarrow> list_all2 sameDecl a c"
  using list_all2_trans [of sameDecl sameDecl sameDecl a b c] sameDecl_trans by blast

lemma declKept_refl: "declKept st st"
  by (auto simp: declKept_def list_all2_sameDecl_refl split: option.splits)

lemma declKept_trans: "declKept a b \<Longrightarrow> declKept b c \<Longrightarrow> declKept a c"
  unfolding declKept_def
proof (intro allI)
  fix n
  assume ab: "\<forall>n. case SuiteMap (plan a) n of None \<Rightarrow> SuiteMap (plan b) n = None
             | Some tc \<Rightarrow> \<exists>tc'. SuiteMap (plan b) n = Some tc' \<and> list_all2 sameDecl (Tests tc) (Tests tc')"
    and bc: "\<forall>n. case SuiteMap (plan b) n of None \<Rightarrow> SuiteMap (plan c) n = None
             | Some tc \<Rightarrow> \<exists>tc'. SuiteMap (plan c) n = Some tc' \<and> list_all2 sameDecl (Tests tc) (Tests tc')"
  show "case SuiteMap (plan a) n of None \<Rightarrow> SuiteMap (plan c) n = None
             | Some tc \<Rightarrow> \<exists>tc'. SuiteMap (plan c) n = Some tc' \<and> list_all2 sameDecl (Tests tc) (Tests tc')"
  proof (cases "SuiteMap (plan a) n")
    case None
    then show ?thesis using ab [rule_format, of n] bc [rule_format, of n] by simp
  next
    case (Some ta)
    then obtain tb where tb: "SuiteMap (plan b) n = Some tb" "list_all2 sameDecl (Tests ta) (Tests tb)"
      using ab [rule_format, of n] by auto
    then obtain tc where tc: "SuiteMap (plan c) n = Some tc" "list_all2 sameDecl (Tests tb) (Tests tc)"
      using bc [rule_format, of n] by auto
    show ?thesis using Some tb tc list_all2_sameDecl_trans by auto
  qed
qed

lemma declKept_registered:
  "declKept st st' \<Longrightarrow> SuiteMap (plan st) n \<noteq> None \<Longrightarrow> SuiteMap (plan st') n \<noteq> None"
  by (auto simp: declKept_def split: option.splits dest!: spec [of _ n])

lemma declKept_same_suites:
  "SuiteMap (plan st') = SuiteMap (plan st) \<Longrightarrow> declKept st st'"
  by (auto simp: declKept_def list_all2_sameDecl_refl split: option.splits)

lemma declKept_updSuite:
  "SuiteMap (plan st) name = Some tc \<Longrightarrow> list_all2 sameDecl (Tests tc) (Tests (f tc)) \<Longrightarrow>
   declKept st (updSuite name f st)"
  by (auto simp: declKept_def updSuite_def deref_def list_all2_sameDecl_refl split: option.splits)

lemma Copy_suite_Tests: "Tests (Copy c src) = Tests c"
  by (simp add: Copy_def Let_def split: body.splits)

lemma sameDecl_update:
  assumes "i < length ts \<longrightarrow> Ref (ts ! i) \<noteq> []"
  shows "list_all2 sameDecl ts (ts[i := (ts ! i)\<lparr>Test.Strict := b\<rparr>])"
proof (cases "i < length ts")
  case True
  have "sameDecl (ts ! j) ((ts[i := (ts ! i)\<lparr>Test.Strict := b\<rparr>]) ! j)" if "j < length ts" for j
  proof (cases "j = i")
    case True
    then show ?thesis using that assms by (simp add: sameDecl_def)
  next
    case False
    then show ?thesis by (simp add: sameDecl_refl)
  qed
  then show ?thesis by (simp add: list_all2_conv_all_nth)
next
  case False
  then have "ts[i := (ts ! i)\<lparr>Test.Strict := b\<rparr>] = ts" by (simp add: not_less list_update_beyond)
  then show ?thesis by (simp only: list_all2_sameDecl_refl)
qed

lemma declKept_updTest:
  "SuiteMap (plan st) name = Some tc \<Longrightarrow> Ref (Tests tc ! i) \<noteq> [] \<Longrightarrow>
   declKept st (updTest name i (\<lambda>t. t\<lparr>Test.Strict := b\<rparr>) st)"
  unfolding updTest_def
proof (rule declKept_updSuite)
  assume "SuiteMap (plan st) name = Some tc"
  then show "SuiteMap (plan st) name = Some tc" .
next
  assume "Ref (Tests tc ! i) \<noteq> []"
  then show "list_all2 sameDecl (Tests tc) (Tests (tc\<lparr>Tests := (Tests tc)[i := (Tests tc ! i)\<lparr>Test.Strict := b\<rparr>]\<rparr>))"
    using sameDecl_update [of i "Tests tc" b] by simp
qed

lemma declKept_runTests:
  assumes IH: "\<And>name pt st rc e st'. Run fuel env name pt st = Return rc e st' \<Longrightarrow> declKept st st'"
  shows "SuiteMap (plan st) name \<noteq> None \<Longrightarrow> runTests fuel env name pt n i rc0 e0 st = Return rc e st' \<Longrightarrow>
         declKept st st'"
proof (induction "n - i" arbitrary: i rc0 e0 st)
  case 0
  then show ?case by (simp add: runTests_end declKept_refl)
next
  case (Suc d)
  then have lt: "i < n" by simp
  have d: "d = n - Suc i" using Suc.hyps(2) by simp
  obtain tc where tc: "SuiteMap (plan st) name = Some tc" using Suc.prems(1) by auto
  then have dr: "deref st name = tc" by (simp add: deref_def)
  let ?t = "Tests (deref st name) ! i"
  show ?case
  proof (cases "Ref ?t \<noteq> []")
    case True
    let ?st1 = "updTest name i (\<lambda>t. t\<lparr>Test.Strict := TestSuite.Strict (deref st name)\<rparr>) st"
    have k1: "declKept st ?st1" using declKept_updTest [OF tc] True dr by simp
    show ?thesis
    proof (cases "Run fuel env (Ref ?t) (ParentAt name i) ?st1")
      case (Return rc' e' st'')
      have k2: "declKept ?st1 st''" by (rule IH [OF Return])
      have k12: "declKept st st''" by (rule declKept_trans [OF k1 k2])
      show ?thesis
      proof (cases e')
        case None
        have "runTests fuel env name pt n (Suc i) rc0 e0 st'' = Return rc e st'"
          using Suc.prems(2) by (simp add: runTests_ref [OF lt True] Return None)
        moreover have "SuiteMap (plan st'') name \<noteq> None"
          using declKept_registered [OF k12 Suc.prems(1)] .
        ultimately have "declKept st'' st'" using Suc.hyps(1) [OF d] by blast
        then show ?thesis using k12 declKept_trans by blast
      next
        case (Some x)
        have "st' = st''" using Suc.prems(2) by (simp add: runTests_ref [OF lt True] Return Some)
        then show ?thesis using k12 by simp
      qed
    next
      case NilDereference
      then show ?thesis using Suc.prems(2) by (simp add: runTests_ref [OF lt True])
    next
      case OutOfFuel
      then show ?thesis using Suc.prems(2) by (simp add: runTests_ref [OF lt True])
    qed
  next
    case noref: False
    then have nr: "Ref ?t = []" by simp
    show ?thesis
    proof (cases "Test.Name ?t = MeqaInit")
      case True
      let ?st1 = "updSuite name (\<lambda>c. (Copy c ?t)\<lparr>TestSuite.Strict := Test.Strict ?t\<rparr>) st"
      have k1: "declKept st ?st1"
        by (rule declKept_updSuite [OF tc]) (simp add: Copy_suite_Tests list_all2_sameDecl_refl)
      have "runTests fuel env name pt n (Suc i) rc0 e0 ?st1 = Return rc e st'"
        using Suc.prems(2) by (simp add: runTests_init [OF lt nr True])
      moreover have "SuiteMap (plan ?st1) name \<noteq> None" using declKept_registered [OF k1 Suc.prems(1)] .
      ultimately have "declKept ?st1 st'" using Suc.hyps(1) [OF d] by blast
      then show ?thesis using k1 declKept_trans by blast
    next
      case False
      obtain dup x st1 where rcn: "runConcrete env name pt ?t st = (dup, x, st1)"
        by (cases "runConcrete env name pt ?t st") auto
      have sm: "SuiteMap (plan st1) = SuiteMap (plan st)" using runConcrete_state [OF rcn] by simp
      have k1: "declKept st st1" by (rule declKept_same_suites [OF sm])
      have reg: "SuiteMap (plan st1) name \<noteq> None" using sm Suc.prems(1) by simp
      note step = runTests_concrete [OF lt nr False rcn, where fuel = fuel and rc = rc0 and tcErr = e0]
      have "st' = st1 \<or> (\<exists>rc1 e1. runTests fuel env name pt n (Suc i) rc1 e1 st1 = Return rc e st')"
        using Suc.prems(2) unfolding step by (auto split: if_splits option.splits)
      then show ?thesis
      proof
        assume "st' = st1"
        then show ?thesis using k1 by simp
      next
        assume "\<exists>rc1 e1. runTests fuel env name pt n (Suc i) rc1 e1 st1 = Return rc e st'"
        then obtain rc1 e1 where "runTests fuel env name pt n (Suc i) rc1 e1 st1 = Return rc e st'" by blast
        then have "declKept st1 st'" using Suc.hyps(1) [OF d reg] by blast
        then show ?thesis using k1 declKept_trans by blast
      qed
    qed
  qed
qed

lemma declKept_Run:
  "Run fuel env name pt st = Return rc e st' \<Longrightarrow> declKept st st'"
proof (induction fuel arbitrary: name pt st rc e st')
  case 0
  then show ?case by (simp add: Run.simps)
next
  case (Suc fuel)
  show ?case
  proof (cases "SuiteMap (plan st) name")
    case None
    then show ?thesis using Suc.prems by (auto simp: Run.simps declKept_refl)
  next
    case (Some tc)
    show ?thesis
    proof (cases "Tests tc = []")
      case True
      then show ?thesis using Suc.prems Some by (auto simp: Run.simps declKept_refl)
    next
      case False
      let ?st1 = "updSuite name (\<lambda>c. c\<lparr>TestSuite.db := Some (CloneSchema env (TestPlan.db (plan st)))\<rparr>) st"
      have k1: "declKept st ?st1"
        by (rule declKept_updSuite [OF Some]) (simp add: list_all2_sameDecl_refl)
      have reg1: "SuiteMap (plan ?st1) name \<noteq> None" using declKept_registered [OF k1] Some by simp
      obtain st2 where r: "runTests fuel env name pt (length (Tests tc)) 0
            [Total \<mapsto> int (length (Tests tc)), Failed \<mapsto> 0] None ?st1 = Return rc e st2"
        and s: "st' = updSuite name (\<lambda>c. c\<lparr>TestSuite.db := None\<rparr>) st2"
        using Suc.prems Some False by (auto simp: Run.simps split: outcome.splits)
      have k2: "declKept ?st1 st2" using declKept_runTests [OF Suc.IH reg1 r] .
      have reg2: "SuiteMap (plan st2) name \<noteq> None" using declKept_registered [OF k2 reg1] .
      then obtain tc2 where tc2: "SuiteMap (plan st2) name = Some tc2" by auto
      have k3: "declKept st2 st'" unfolding s
        by (rule declKept_updSuite [OF tc2]) (simp add: list_all2_sameDecl_refl)
      show ?thesis using k1 k2 k3 declKept_trans by blast
    qed
  qed
qed

lemma replay_step:
  "i < length ts \<Longrightarrow>
   replay env name pt (take (Suc k - i) (drop i ts)) st =
     (case runConcrete env name pt (ts ! i) st of
        (dup, e, st') \<Rightarrow> dup # replay env name pt (take (k - i) (drop (Suc i) ts)) st')" if "i \<le> k"
proof -
  assume i: "i < length ts"
  have "Suc k - i = Suc (k - i)" using that by simp
  moreover have "drop i ts = ts ! i # drop (Suc i) ts" using i by (simp add: Cons_nth_drop_Suc)
  ultimately show ?thesis by simp
qed

lemma countStep_Skipped: "count (countStep rc dup e) Skipped = count rc Skipped"
  by (simp add: countStep_def Let_def count_incr)

lemma runTests_skip:
  assumes tc: "SuiteMap (plan st) name = Some tc"
    and conc: "\<forall>t \<in> set (Tests tc). Ref t = [] \<and> Test.Name t \<noteq> MeqaInit"
    and n: "n = length (Tests tc)" and kn: "k < n" and ik: "i \<le> k"
    and dups: "dups = replay env name pt (take (Suc k - i) (drop i (Tests tc))) st"
    and cont: "\<forall>j < k - i. continues (dups ! j)"
    and trig: "Test.Method (dups ! (k - i)) = MethodPost" "PathParams (dups ! (k - i)) = Map.empty"
      "resp (dups ! (k - i)) = Some status" "300 \<le> status"
  shows "\<exists>rc' e' st'. runTests fuel env name pt n i rc tcErr st = Return rc' e' st'
      \<and> count rc' Skipped = count rc Skipped + (int n - int k - 1)
      \<and> resultList (plan st') = resultList (plan st) @ dups
      \<and> History st' = History st @ dups
      \<and> length dups = Suc k - i
      \<and> SuiteMap (plan st') = SuiteMap (plan st)"
  using tc ik dups cont trig
proof (induction "k - i" arbitrary: i st rc tcErr dups)
  case 0
  then have ik: "i = k" by simp
  have dr: "deref st name = tc" using "0.prems"(1) by (simp add: deref_def)
  have il: "i < length (Tests tc)" using ik kn n by simp
  have cn: "Ref (Tests tc ! i) = []" "Test.Name (Tests tc ! i) \<noteq> MeqaInit"
    using conc il by simp_all
  obtain dup e st1 where rcn: "runConcrete env name pt (Tests tc ! i) st = (dup, e, st1)"
    by (cases "runConcrete env name pt (Tests tc ! i) st") auto
  have d: "dups = [dup]"
    using "0.prems"(3) replay_step [of i k "Tests tc" env name pt st] il rcn ik by simp
  note S = runConcrete_state [OF rcn]
  have dr1: "deref st1 name = tc" using runConcrete_deref [OF rcn] dr by simp
  have tr: "Test.Method dup = MethodPost" "PathParams dup = Map.empty" "resp dup = Some status"
    using "0.prems"(5,6,7) d ik by simp_all
  have "runTests fuel env name pt n i rc tcErr st =
      Return ((countStep rc dup e)(Skipped \<mapsto> count (countStep rc dup e) Skipped
                 + (int (length (Tests (deref st1 name))) - int i - 1))) (firstError tcErr e) st1"
    using runTests_concrete [of i n st name env pt dup e st1 fuel rc tcErr] il n cn rcn dr tr "0.prems"(8)
    by simp
  then show ?case using S d dr1 ik n by (simp add: count_def countStep_Skipped [unfolded count_def])
next
  case (Suc d)
  then have ik: "i < k" by simp
  have dr: "deref st name = tc" using Suc.prems(1) by (simp add: deref_def)
  have il: "i < length (Tests tc)" using ik kn n by simp
  have cn: "Ref (Tests tc ! i) = []" "Test.Name (Tests tc ! i) \<noteq> MeqaInit"
    using conc il by simp_all
  obtain dup e st1 where rcn: "runConcrete env name pt (Tests tc ! i) st = (dup, e, st1)"
    by (cases "runConcrete env name pt (Tests tc ! i) st") auto
  let ?rest = "replay env name pt (take (Suc k - Suc i) (drop (Suc i) (Tests tc))) st1"
  have d: "dups = dup # ?rest"
    using Suc.prems(3) replay_step [of i k "Tests tc" env name pt st] il rcn ik by simp
  note S = runConcrete_state [OF rcn]
  have tc1: "SuiteMap (plan st1) name = Some tc" using S Suc.prems(1) by simp
  have "continues (dups ! 0)" using Suc.prems(4) ik by simp
  then have c0: "continues dup" using d by simp
  have step: "runTests fuel env name pt n i rc tcErr st =
      runTests fuel env name pt n (Suc i) (countStep rc dup e) (firstError tcErr e) st1"
    using runTests_concrete [of i n st name env pt dup e st1 fuel rc tcErr] il n cn rcn dr c0
    by (auto simp: continues_def split: option.splits if_splits)
  have kd: "d = k - Suc i" using Suc.hyps(2) by simp
  have ki: "k - i = Suc (k - Suc i)" using ik by simp
  have cont': "\<forall>j < k - Suc i. continues (?rest ! j)"
  proof (intro allI impI)
    fix j assume "j < k - Suc i"
    then have "Suc j < k - i" using ik by simp
    then have "continues (dups ! Suc j)" using Suc.prems(4) by blast
    then show "continues (?rest ! j)" using d by simp
  qed
  have trig': "Test.Method (?rest ! (k - Suc i)) = MethodPost" "PathParams (?rest ! (k - Suc i)) = Map.empty"
      "resp (?rest ! (k - Suc i)) = Some status"
    using Suc.prems(5,6,7) d ki by simp_all
  from Suc.hyps(1) [OF kd tc1 _ refl cont' trig' Suc.prems(8), of "countStep rc dup e" "firstError tcErr e"] ik
  obtain rc' e' st' where r:
      "runTests fuel env name pt n (Suc i) (countStep rc dup e) (firstError tcErr e) st1 = Return rc' e' st'"
      "count rc' Skipped = count (countStep rc dup e) Skipped + (int n - int k - 1)"
      "resultList (plan st') = resultList (plan st1) @ ?rest"
      "History st' = History st1 @ ?rest"
      "length ?rest = Suc k - Suc i"
      "SuiteMap (plan st') = SuiteMap (plan st1)"
    by auto
  show ?case
    using step r S d ik by (simp add: countStep_Skipped)
qed

subsection \<open>The parameter model\<close>

text \<open>
  C4. For every pair of parameter bundles, \<open>Copy dst src\<close> gives in each of the four
  mapping slots the value of \<open>src\<close> on every key that \<open>src\<close> has (so on every key
  present in both) and keeps the value of \<open>dst\<close> on the keys only \<open>dst\<close> has. When
  both bodies are string-keyed mappings they are merged with \<open>src\<close> winning; otherwise
  the body of \<open>dst\<close> becomes the body of \<open>src\<close>, also when that one is absent. The
  function is total: there is no error result, whatever is empty on either side, and
  the fields outside the bundle are left alone.
\<close>

theorem Copy_source_wins:
  fixes dst :: "'a TestParams_scheme" and src :: "'b TestParams_scheme"
  shows "(\<forall>k v. QueryParams src k = Some v \<longrightarrow> QueryParams (Copy dst src) k = Some v)
       \<and> (\<forall>k. QueryParams src k = None \<longrightarrow> QueryParams (Copy dst src) k = QueryParams dst k)
       \<and> (\<forall>k v. FormParams src k = Some v \<longrightarrow> FormParams (Copy dst src) k = Some v)
       \<and> (\<forall>k. FormParams src k = None \<longrightarrow> FormParams (Copy dst src) k = FormParams dst k)
       \<and> (\<forall>k v. PathParams src k = Some v \<longrightarrow> PathParams (Copy dst src) k = Some v)
       \<and> (\<forall>k. PathParams src k = None \<longrightarrow> PathParams (Copy dst src) k = PathParams dst k)
       \<and> (\<forall>k v. HeaderParams src k = Some v \<longrightarrow> HeaderParams (Copy dst src) k = Some v)
       \<and> (\<forall>k. HeaderParams src k = None \<longrightarrow> HeaderParams (Copy dst src) k = HeaderParams dst k)
       \<and> (\<forall>a b. BodyParams dst = Mapping a \<and> BodyParams src = Mapping b \<longrightarrow>
             (\<exists>m. BodyParams (Copy dst src) = Mapping m
                \<and> (\<forall>k v. b k = Some v \<longrightarrow> m k = Some v) \<and> (\<forall>k. b k = None \<longrightarrow> m k = a k)))
       \<and> ((\<forall>a. BodyParams dst \<noteq> Mapping a) \<or> (\<forall>b. BodyParams src \<noteq> Mapping b) \<longrightarrow>
             BodyParams (Copy dst src) = BodyParams src)
       \<and> TestParams.more (Copy dst src) = TestParams.more dst"
  by (auto simp: Copy_def MapCombine_def Let_def split: body.splits option.splits)

theorem Copy_source_wins_witness:
  "QueryParams (Copy d0 s0) ''b'' = Some (VInt 3) \<and> QueryParams (Copy d0 s0) ''a'' = Some (VInt 1)
   \<and> PathParams (Copy d0 s0) ''id'' = Some (VInt 7) \<and> HeaderParams (Copy d0 s0) ''h'' = Some (VStr ''v'')
   \<and> (\<exists>m. BodyParams (Copy d0 s0) = Mapping m \<and> m ''y'' = Some (VInt 5) \<and> m ''x'' = Some (VInt 1))
   \<and> BodyParams (Copy d0 (s0\<lparr>BodyParams := Absent\<rparr>)) = Absent"
proof -
  note A = Copy_source_wins [where dst = d0 and src = s0]
  note B = Copy_source_wins [where dst = d0 and src = "s0\<lparr>BodyParams := Absent\<rparr>"]
  have q: "QueryParams s0 ''b'' = Some (VInt 3)" "QueryParams s0 ''a'' = None" "QueryParams d0 ''a'' = Some (VInt 1)"
    "PathParams s0 ''id'' = None" "PathParams d0 ''id'' = Some (VInt 7)" "HeaderParams s0 ''h'' = Some (VStr ''v'')"
    by (simp_all add: d0_def s0_def)
  have b: "BodyParams d0 = Mapping [''x'' \<mapsto> VInt 1, ''y'' \<mapsto> VInt 2] \<and> BodyParams s0 = Mapping [''y'' \<mapsto> VInt 5]"
    by (simp add: d0_def s0_def)
  from A b obtain m where m: "BodyParams (Copy d0 s0) = Mapping m"
      "\<forall>k v. [''y'' \<mapsto> VInt 5] k = Some v \<longrightarrow> m k = Some v"
      "\<forall>k. [''y'' \<mapsto> VInt 5] k = None \<longrightarrow> m k = [''x'' \<mapsto> VInt 1, ''y'' \<mapsto> VInt 2] k"
    by blast
  have "m ''y'' = Some (VInt 5)" using m(2) by simp
  moreover have "m ''x'' = Some (VInt 1)" using m(3) [rule_format, of "''x''"] by simp
  moreover have "BodyParams (Copy d0 (s0\<lparr>BodyParams := Absent\<rparr>)) = Absent" using B by simp
  ultimately show ?thesis using A q m(1) by simp
qed

text \<open>
  C5. For every pair of parameter bundles, \<open>Add dst src\<close> keeps in each of the four
  mapping slots the value of every key that \<open>dst\<close> has, and copies the keys only
  \<open>src\<close> has. When both bodies are mappings they are merged with \<open>dst\<close> winning;
  otherwise the body of \<open>dst\<close> stays as it is, unless it was unset, in which case the
  body of \<open>src\<close> is adopted.
\<close>

theorem Add_destination_wins:
  fixes dst :: "'a TestParams_scheme" and src :: "'b TestParams_scheme"
  shows "(\<forall>k v. QueryParams dst k = Some v \<longrightarrow> QueryParams (Add dst src) k = Some v)
       \<and> (\<forall>k. QueryParams dst k = None \<longrightarrow> QueryParams (Add dst src) k = QueryParams src k)
       \<and> (\<forall>k v. FormParams dst k = Some v \<longrightarrow> FormParams (Add dst src) k = Some v)
       \<and> (\<forall>k. FormParams dst k = None \<longrightarrow> FormParams (Add dst src) k = FormParams src k)
       \<and> (\<forall>k v. PathParams dst k = Some v \<longrightarrow> PathParams (Add dst src) k = Some v)
       \<and> (\<forall>k. PathParams dst k = None \<longrightarrow> PathParams (Add dst src) k = PathParams src k)
       \<and> (\<forall>k v. HeaderParams dst k = Some v \<longrightarrow> HeaderParams (Add dst src) k = Some v)
       \<and> (\<forall>k. HeaderParams dst k = None \<longrightarrow> HeaderParams (Add dst src) k = HeaderParams src k)
       \<and> (\<forall>a b. BodyParams dst = Mapping a \<and> BodyParams src = Mapping b \<longrightarrow>
             (\<exists>m. BodyParams (Add dst src) = Mapping m
                \<and> (\<forall>k v. a k = Some v \<longrightarrow> m k = Some v) \<and> (\<forall>k. a k = None \<longrightarrow> m k = b k)))
       \<and> (((\<forall>a. BodyParams dst \<noteq> Mapping a) \<or> (\<forall>b. BodyParams src \<noteq> Mapping b)) \<and> BodyParams dst \<noteq> Absent \<longrightarrow>
             BodyParams (Add dst src) = BodyParams dst)
       \<and> (BodyParams dst = Absent \<longrightarrow> BodyParams (Add dst src) = BodyParams src)
       \<and> TestParams.more (Add dst src) = TestParams.more dst"
  by (auto simp: Add_def MapAdd_def Let_def split: body.splits option.splits)

theorem Add_destination_wins_witness:
  "QueryParams (Add d0 s0) ''b'' = Some (VInt 2) \<and> QueryParams (Add d0 s0) ''c'' = Some (VInt 4)
   \<and> HeaderParams (Add d0 s0) ''h'' = Some (VStr ''v'') \<and> PathParams (Add d0 s0) ''id'' = Some (VInt 7)
   \<and> (\<exists>m. BodyParams (Add d0 s0) = Mapping m \<and> m ''y'' = Some (VInt 2) \<and> m ''x'' = Some (VInt 1))
   \<and> BodyParams (Add (d0\<lparr>BodyParams := Scalar (VInt 9)\<rparr>) s0) = Scalar (VInt 9)
   \<and> BodyParams (Add (d0\<lparr>BodyParams := Absent\<rparr>) s0) = BodyParams s0"
proof -
  note A = Add_destination_wins [where dst = d0 and src = s0]
  note B = Add_destination_wins [where dst = "d0\<lparr>BodyParams := Scalar (VInt 9)\<rparr>" and src = s0]
  note C = Add_destination_wins [where dst = "d0\<lparr>BodyParams := Absent\<rparr>" and src = s0]
  have q: "QueryParams d0 ''b'' = Some (VInt 2)" "QueryParams d0 ''c'' = None" "QueryParams s0 ''c'' = Some (VInt 4)"
    "HeaderParams d0 ''h'' = None" "HeaderParams s0 ''h'' = Some (VStr ''v'')" "PathParams d0 ''id'' = Some (VInt 7)"
    by (simp_all add: d0_def s0_def)
  have b: "BodyParams d0 = Mapping [''x'' \<mapsto> VInt 1, ''y'' \<mapsto> VInt 2] \<and> BodyParams s0 = Mapping [''y'' \<mapsto> VInt 5]"
    by (simp add: d0_def s0_def)
  from A b obtain m where m: "BodyParams (Add d0 s0) = Mapping m"
      "\<forall>k v. [''x'' \<mapsto> VInt 1, ''y'' \<mapsto> VInt 2] k = Some v \<longrightarrow> m k = Some v"
    by blast
  have "m ''y'' = Some (VInt 2)" using m(2) by simp
  moreover have "m ''x'' = Some (VInt 1)" using m(2) by simp
  moreover have "BodyParams (Add (d0\<lparr>BodyParams := Scalar (VInt 9)\<rparr>) s0) = Scalar (VInt 9)" using B by simp
  moreover have "BodyParams (Add (d0\<lparr>BodyParams := Absent\<rparr>) s0) = BodyParams s0" using C by simp
  ultimately show ?thesis using A q m(1) by simp
qed

subsection \<open>The failure corpus: writing and reading back\<close>









lemma ReadFails_records:
  assumes "OpenError env (Join path MeqaFails) = None"
    and "fs (Join path MeqaFails) = Some (map Record vs)"
  shows "ReadFails env fs path q = readRecords (map Record vs) Map.empty q"
  using assms by (simp add: ReadFails_def)

lemma fuzzEntry_empty: "fuzzEntry Map.empty e m f fv = None"
  by (simp add: fuzzEntry_def sub_def)








lemma readRecords_garbage:
  "\<exists>q'. readRecords (map Record vs @ Garbage msg # rest) F q = (Some (DecodeError msg), q')
      \<and> OldFailuresMap q' = OldFailuresMap q
      \<and> OtherFailures q' = OtherFailures q @ filter (\<lambda>v. \<not> matchesType (TestPlan.FuzzType q) v) vs"
proof (induction vs arbitrary: F q)
  case Nil
  then show ?case by simp
next
  case (Cons v vs)
  show ?case
  proof (cases "matchesType (TestPlan.FuzzType q) v")
    case True
    then show ?thesis using Cons.IH [of _ q] by (auto simp: Let_def matchesType_def)
  next
    case False
    then show ?thesis
      using Cons.IH [of "initPath F (Endpoint v) (Payload.Method v) (Field v)" "q\<lparr>OtherFailures := OtherFailures q @ [v]\<rparr>"]
      by (auto simp: Let_def matchesType_def)
  qed
qed

text \<open>
  C10, as the code has it. When the corpus opens and every document decodes,
  \<open>ReadFails\<close> succeeds and the endpoint, method and field of every record, matching
  or not, are present in \<open>OldFailuresMap\<close>. The innermost set under them holds
  \<open>true\<close> at the fuzz values of the matching records that have the same endpoint,
  method and field, and nothing else: it is empty when no matching record shares them.
  When a document does not decode, \<open>ReadFails\<close> returns the decoding error,
  \<open>OldFailuresMap\<close> is left as it was, and the records routed to \<open>OtherFailures\<close>
  before the error stay there.
\<close>

theorem ReadFails_paths:
  assumes "OpenError env (Join path MeqaFails) = None"
  shows "(fs (Join path MeqaFails) = Some (map Record vs) \<longrightarrow>
           (\<exists>q'. ReadFails env fs path q = (None, q')
              \<and> (\<forall>v \<in> set vs.
                    pathPresent (OldFailuresMap q') (Endpoint v) (Payload.Method v) (Field v)
                  \<and> (\<forall>fv. fuzzEntry (OldFailuresMap q') (Endpoint v) (Payload.Method v) (Field v) fv =
                        (if \<exists>w \<in> set vs. matchesType (TestPlan.FuzzType q) w
                              \<and> samePath w (Endpoint v) (Payload.Method v) (Field v) \<and> fuzzValueOf w = fv
                         then Some True else None))
                  \<and> ((\<forall>w \<in> set vs. samePath w (Endpoint v) (Payload.Method v) (Field v)
                          \<longrightarrow> \<not> matchesType (TestPlan.FuzzType q) w)
                       \<longrightarrow> sub (sub (sub (OldFailuresMap q') (Endpoint v)) (Payload.Method v)) (Field v) = Map.empty))))
       \<and> (fs (Join path MeqaFails) = Some (map Record vs @ Garbage msg # rest) \<longrightarrow>
           (\<exists>q'. ReadFails env fs path q = (Some (DecodeError msg), q')
              \<and> OldFailuresMap q' = OldFailuresMap q
              \<and> OtherFailures q' = OtherFailures q @ filter (\<lambda>v. \<not> matchesType (TestPlan.FuzzType q) v) vs))"
proof (intro conjI impI)
  assume c: "fs (Join path MeqaFails) = Some (map Record vs)"
  let ?q' = "snd (readRecords (map Record vs) Map.empty q)"
  have R: "ReadFails env fs path q = (None, ?q')"
    using ReadFails_records [where env = env and path = path and fs = fs and vs = vs and q = q] assms c
      readRecords_ok [of vs Map.empty q]
    by (metis prod.collapse)
  have E: "\<And>e m f fv. fuzzEntry (OldFailuresMap ?q') e m f fv =
          (if \<exists>w \<in> set vs. matchesType (TestPlan.FuzzType q) w \<and> samePath w e m f \<and> fuzzValueOf w = fv
           then Some True else None)"
    by (simp only: readRecords_entry fuzzEntry_empty)
  have P: "\<And>v. v \<in> set vs \<Longrightarrow> pathPresent (OldFailuresMap ?q') (Endpoint v) (Payload.Method v) (Field v)"
    by (simp only: readRecords_present) (auto simp: samePath_def)
  have Z: "\<And>v. \<forall>w \<in> set vs. samePath w (Endpoint v) (Payload.Method v) (Field v)
                          \<longrightarrow> \<not> matchesType (TestPlan.FuzzType q) w \<Longrightarrow>
        sub (sub (sub (OldFailuresMap ?q') (Endpoint v)) (Payload.Method v)) (Field v) = Map.empty"
  proof (rule ext)
    fix v fv
    assume a: "\<forall>w \<in> set vs. samePath w (Endpoint v) (Payload.Method v) (Field v)
                          \<longrightarrow> \<not> matchesType (TestPlan.FuzzType q) w"
    have "fuzzEntry (OldFailuresMap ?q') (Endpoint v) (Payload.Method v) (Field v) fv = None"
      using a by (simp only: E) auto
    then show "sub (sub (sub (OldFailuresMap ?q') (Endpoint v)) (Payload.Method v)) (Field v) fv = None"
      by (simp add: fuzzEntry_def)
  qed
  show "\<exists>q'. ReadFails env fs path q = (None, q')
              \<and> (\<forall>v \<in> set vs.
                    pathPresent (OldFailuresMap q') (Endpoint v) (Payload.Method v) (Field v)
                  \<and> (\<forall>fv. fuzzEntry (OldFailuresMap q') (Endpoint v) (Payload.Method v) (Field v) fv =
                        (if \<exists>w \<in> set vs. matchesType (TestPlan.FuzzType q) w
                              \<and> samePath w (Endpoint v) (Payload.Method v) (Field v) \<and> fuzzValueOf w = fv
                         then Some True else None))
                  \<and> ((\<forall>w \<in> set vs. samePath w (Endpoint v) (Payload.Method v) (Field v)
                          \<longrightarrow> \<not> matchesType (TestPlan.FuzzType q) w)
                       \<longrightarrow> sub (sub (sub (OldFailuresMap q') (Endpoint v)) (Payload.Method v)) (Field v) = Map.empty))"
    apply (rule exI [of _ ?q'])
    using R E P Z by blast
next
  assume c: "fs (Join path MeqaFails) = Some (map Record vs @ Garbage msg # rest)"
  have "ReadFails env fs path q = readRecords (map Record vs @ Garbage msg # rest) Map.empty q"
    using assms c by (simp add: ReadFails_def)
  then show "\<exists>q'. ReadFails env fs path q = (Some (DecodeError msg), q')
              \<and> OldFailuresMap q' = OldFailuresMap q
              \<and> OtherFailures q' = OtherFailures q @ filter (\<lambda>v. \<not> matchesType (TestPlan.FuzzType q) v) vs"
    using readRecords_garbage [of vs msg rest Map.empty q] by simp
qed

theorem ReadFails_paths_witness:
  "fst (ReadFails env0 [Join ''run'' MeqaFails \<mapsto> [Record payB]] ''run'' plan0) = None
   \<and> pathPresent (OldFailuresMap (snd (ReadFails env0 [Join ''run'' MeqaFails \<mapsto> [Record payB]] ''run'' plan0)))
        ''/pets'' ''post'' ''name''
   \<and> sub (sub (sub (OldFailuresMap (snd (ReadFails env0 [Join ''run'' MeqaFails \<mapsto> [Record payB]] ''run'' plan0)))
        ''/pets'') ''post'') ''name'' = Map.empty"
proof -
  have h: "OpenError env0 (Join ''run'' MeqaFails) = None" by (simp add: env0_def)
  have c: "[Join ''run'' MeqaFails \<mapsto> [Record payB]] (Join ''run'' MeqaFails) = Some (map Record [payB])"
    by simp
  have n: "\<forall>w \<in> set [payB]. samePath w (Endpoint payB) (Payload.Method payB) (Field payB)
             \<longrightarrow> \<not> matchesType (TestPlan.FuzzType plan0) w"
    by (simp add: matchesType_def plan0_def payB_def FuzzAll_def)
  have pb: "Endpoint payB = ''/pets''" "Payload.Method payB = ''post''" "Field payB = ''name''"
    by (simp_all add: payB_def)
  from ReadFails_paths [OF h, where fs = "[Join ''run'' MeqaFails \<mapsto> [Record payB]]" and vs = "[payB]" and q = plan0] c
  obtain q' where r: "ReadFails env0 [Join ''run'' MeqaFails \<mapsto> [Record payB]] ''run'' plan0 = (None, q')"
    "\<forall>v \<in> set [payB].
        pathPresent (OldFailuresMap q') (Endpoint v) (Payload.Method v) (Field v)
      \<and> ((\<forall>w \<in> set [payB]. samePath w (Endpoint v) (Payload.Method v) (Field v)
              \<longrightarrow> \<not> matchesType (TestPlan.FuzzType plan0) w)
           \<longrightarrow> sub (sub (sub (OldFailuresMap q') (Endpoint v)) (Payload.Method v)) (Field v) = Map.empty)"
    by blast
  from r(2) n pb have "pathPresent (OldFailuresMap q') ''/pets'' ''post'' ''name''"
    "sub (sub (sub (OldFailuresMap q') ''/pets'') ''post'') ''name'' = Map.empty"
    by auto
  with r(1) show ?thesis by simp
qed

text \<open>
  The claim as it is worded fails twice. A record routed to \<open>OtherFailures\<close> shares
  its endpoint, method and field with a matching record: the innermost set under its
  path is not empty. And a record is routed to \<open>OtherFailures\<close> before a document that
  does not decode: \<open>OldFailuresMap\<close> is never assigned and its path is not there.
\<close>

theorem ReadFails_paths_counterexample:
  "fst (ReadFails env0 [Join ''run'' MeqaFails \<mapsto> [Record payA, Record payB]] ''run'' plan0) = None
   \<and> OtherFailures (snd (ReadFails env0 [Join ''run'' MeqaFails \<mapsto> [Record payA, Record payB]] ''run'' plan0))
        = [payB]
   \<and> sub (sub (sub (OldFailuresMap
          (snd (ReadFails env0 [Join ''run'' MeqaFails \<mapsto> [Record payA, Record payB]] ''run'' plan0)))
        (Endpoint payB)) (Payload.Method payB)) (Field payB) (fuzzValueOf payA) = Some True
   \<and> fst (ReadFails env0 [Join ''run'' MeqaFails \<mapsto> [Record payB, Garbage ''{'']] ''run'' plan0)
        = Some (DecodeError ''{'')
   \<and> OtherFailures (snd (ReadFails env0 [Join ''run'' MeqaFails \<mapsto> [Record payB, Garbage ''{'']] ''run'' plan0))
        = [payB]
   \<and> \<not> pathPresent (OldFailuresMap
          (snd (ReadFails env0 [Join ''run'' MeqaFails \<mapsto> [Record payB, Garbage ''{'']] ''run'' plan0)))
        (Endpoint payB) (Payload.Method payB) (Field payB)"
  by (simp add: ReadFails_def env0_def plan0_def payA_def payB_def FuzzAll_def Let_def
      initPath_def setFailure_def sub_def fuzzValueOf_def pathPresent_def)

subsection \<open>The loader: duplicate names and discarded errors\<close>

text \<open>
  C3, as the code has it. \<open>Add\<close> rejects a suite whose name is registered with the
  duplicate-name error and leaves the plan as it was. \<open>AddFromString\<close> on a chunk
  that names a suite already registered returns a duplicate-name error for a name of
  the chunk; what was registered before stays registered, with the same suite, and no
  registered name enters \<open>SuiteList\<close> a second time. A chunk decodes to a map, so its
  names are distinct, and when none of them is registered it is added without error:
  a name cannot repeat within a chunk.
\<close>

theorem duplicate_suite_rejected:
  "(SuiteMap p (TestSuite.Name s) \<noteq> None \<longrightarrow>
      TestPlan_Add s p = (Some (DuplicateName (TestSuite.Name s)), p))
   \<and> (yamlUnmarshal env chunk = Inr sm \<and> (\<exists>x \<in> set sm. fst x \<noteq> MeqaInit \<and> SuiteMap p (fst x) \<noteq> None) \<longrightarrow>
        (\<exists>m. fst (AddFromString env chunk p) = Some (DuplicateName m) \<and> m \<in> fst ` set sm)
      \<and> (\<forall>n t. SuiteMap p n = Some t \<longrightarrow>
            SuiteMap (snd (AddFromString env chunk p)) n = Some t
          \<and> filter (\<lambda>x. x = n) (SuiteList (snd (AddFromString env chunk p))) = filter (\<lambda>x. x = n) (SuiteList p)))
   \<and> (yamlUnmarshal env chunk = Inr sm \<and> distinct (map fst sm) \<and> (\<forall>x \<in> set sm. SuiteMap p (fst x) = None) \<longrightarrow>
        fst (AddFromString env chunk p) = None)"
proof (intro conjI impI)
  assume "SuiteMap p (TestSuite.Name s) \<noteq> None"
  then show "TestPlan_Add s p = (Some (DuplicateName (TestSuite.Name s)), p)"
    by (simp add: TestPlan_Add_def)
next
  assume a: "yamlUnmarshal env chunk = Inr sm \<and> (\<exists>x \<in> set sm. fst x \<noteq> MeqaInit \<and> SuiteMap p (fst x) \<noteq> None)"
  then have "AddFromString env chunk p = addSuites env sm p" by (simp add: AddFromString_def)
  then show "\<exists>m. fst (AddFromString env chunk p) = Some (DuplicateName m) \<and> m \<in> fst ` set sm"
    using addSuites_duplicate [of sm p env] a by simp
next
  assume a: "yamlUnmarshal env chunk = Inr sm \<and> (\<exists>x \<in> set sm. fst x \<noteq> MeqaInit \<and> SuiteMap p (fst x) \<noteq> None)"
  then have e: "AddFromString env chunk p = addSuites env sm p" by (simp add: AddFromString_def)
  show "\<forall>n t. SuiteMap p n = Some t \<longrightarrow>
            SuiteMap (snd (AddFromString env chunk p)) n = Some t
          \<and> filter (\<lambda>x. x = n) (SuiteList (snd (AddFromString env chunk p))) = filter (\<lambda>x. x = n) (SuiteList p)"
    using addSuites_keeps [of p _ _ env sm] addSuites_list [of p _ env sm] by (simp add: e)
next
  assume a: "yamlUnmarshal env chunk = Inr sm \<and> distinct (map fst sm) \<and> (\<forall>x \<in> set sm. SuiteMap p (fst x) = None)"
  then show "fst (AddFromString env chunk p) = None"
    using addSuites_fresh [of sm p env] by (simp add: AddFromString_def)
qed

lemma load_a:
  "AddFromString envL ''a'' plan0 =
     (None, plan0\<lparr>SuiteMap := [''A'' \<mapsto> (CreateTestSuite ''A'' [test0\<lparr>Test.Name := ''get''\<rparr>] plan0)],
                  SuiteList := [''A'']\<rparr>)"
  by (simp add: AddFromString_def envL_def env0_def addSuites_Cons MeqaInit_def plan0_def CreateTestSuite_def
      Copy_def zeroTestSuite_def Let_def)

theorem duplicate_suite_rejected_witness:
  "fst (AddFromString envL ''a'' plan0) = None
   \<and> fst (AddFromString envL ''a'' (snd (AddFromString envL ''a'' plan0))) = Some (DuplicateName ''A'')
   \<and> SuiteMap (snd (AddFromString envL ''a'' (snd (AddFromString envL ''a'' plan0)))) ''A''
       = SuiteMap (snd (AddFromString envL ''a'' plan0)) ''A''
   \<and> filter (\<lambda>x. x = ''A'') (SuiteList (snd (AddFromString envL ''a'' (snd (AddFromString envL ''a'' plan0))))) = [''A'']"
proof -
  let ?p = "snd (AddFromString envL ''a'' plan0)"
  let ?sm = "[(''A'', [test0\<lparr>Test.Name := ''get''\<rparr>])]"
  have d: "yamlUnmarshal envL ''a'' = Inr ?sm" by (simp add: envL_def)
  have m: "SuiteMap ?p ''A'' = Some (CreateTestSuite ''A'' [test0\<lparr>Test.Name := ''get''\<rparr>] plan0)"
    "SuiteList ?p = [''A'']"
    by (simp_all add: load_a)
  have h: "yamlUnmarshal envL ''a'' = Inr ?sm \<and> (\<exists>x \<in> set ?sm. fst x \<noteq> MeqaInit \<and> SuiteMap ?p (fst x) \<noteq> None)"
    using d m by (simp add: MeqaInit_def)
  have f: "yamlUnmarshal envL ''a'' = Inr ?sm \<and> distinct (map fst ?sm) \<and> (\<forall>x \<in> set ?sm. SuiteMap plan0 (fst x) = None)"
    using d by (simp add: plan0_def)
  note T = duplicate_suite_rejected [where env = envL and chunk = "''a''" and sm = ?sm]
  from T [where p = ?p] h
  have 1: "\<exists>m. fst (AddFromString envL ''a'' ?p) = Some (DuplicateName m) \<and> m \<in> fst ` set ?sm"
    and 2: "\<forall>n t. SuiteMap ?p n = Some t \<longrightarrow>
            SuiteMap (snd (AddFromString envL ''a'' ?p)) n = Some t
          \<and> filter (\<lambda>x. x = n) (SuiteList (snd (AddFromString envL ''a'' ?p))) = filter (\<lambda>x. x = n) (SuiteList ?p)"
    by blast+
  from T [where p = plan0] f have 3: "fst (AddFromString envL ''a'' plan0) = None" by blast
  from 1 have 4: "fst (AddFromString envL ''a'' ?p) = Some (DuplicateName ''A'')" by auto
  from 2 m(1) have 5: "SuiteMap (snd (AddFromString envL ''a'' ?p)) ''A'' = SuiteMap ?p ''A''"
    "filter (\<lambda>x. x = ''A'') (SuiteList (snd (AddFromString envL ''a'' ?p))) = filter (\<lambda>x. x = ''A'') (SuiteList ?p)"
    by simp_all
  show ?thesis using 3 4 5 m(2) by simp
qed

text \<open>
  The second chunk of \<open>dup.yml\<close> repeats the suite name of the first. Loading returns
  no error and goes on to the third chunk, whose suite is registered.
\<close>

theorem duplicate_load_counterexample:
  "fst (InitFromFile envL ''dup.yml'' 0 plan0) = None
   \<and> SuiteList (snd (InitFromFile envL ''dup.yml'' 0 plan0)) = [''A'', ''B'']"
  by (simp add: InitFromFile_def TestPlan_Init_def Split_def AddFromString_def envL_def env0_def
      addSuites_Cons MeqaInit_def plan0_def CreateTestSuite_def Let_def)

text \<open>
  C9. \<open>InitFromFile\<close> returns the error of reading the file and no other: when the
  file is read, it returns nil, and the plan is what the chunks leave one after the
  other, each starting from the plan the one before left, whatever error it returned.
  A suite that is registered after any number of chunks is registered, unchanged, in
  the plan that \<open>InitFromFile\<close> leaves.
\<close>

theorem InitFromFile_discards_errors:
  "(\<forall>e. ReadFile env path = Inl e \<longrightarrow> fst (InitFromFile env path d p) = Some e)
   \<and> (\<forall>data. ReadFile env path = Inr data \<longrightarrow>
         fst (InitFromFile env path d p) = None
       \<and> snd (InitFromFile env path d p)
           = foldl (\<lambda>q chunk. snd (AddFromString env chunk q)) (TestPlan_Init d p) (Split data ''---'')
       \<and> (\<forall>pre post n s.
             Split data ''---'' = pre @ post
           \<and> SuiteMap (foldl (\<lambda>q chunk. snd (AddFromString env chunk q)) (TestPlan_Init d p) pre) n = Some s
           \<longrightarrow> SuiteMap (snd (InitFromFile env path d p)) n = Some s))"
proof (intro conjI allI impI)
  fix e assume "ReadFile env path = Inl e"
  then show "fst (InitFromFile env path d p) = Some e" by (simp add: InitFromFile_def Let_def)
next
  fix data assume "ReadFile env path = Inr data"
  then show "fst (InitFromFile env path d p) = None" by (simp add: InitFromFile_def Let_def)
next
  fix data assume "ReadFile env path = Inr data"
  then show "snd (InitFromFile env path d p)
           = foldl (\<lambda>q chunk. snd (AddFromString env chunk q)) (TestPlan_Init d p) (Split data ''---'')"
    by (simp add: InitFromFile_def Let_def)
next
  fix data pre post n s
  assume r: "ReadFile env path = Inr data"
    and a: "Split data ''---'' = pre @ post
           \<and> SuiteMap (foldl (\<lambda>q chunk. snd (AddFromString env chunk q)) (TestPlan_Init d p) pre) n = Some s"
  have "snd (InitFromFile env path d p)
      = foldl (\<lambda>q chunk. snd (AddFromString env chunk q))
          (foldl (\<lambda>q chunk. snd (AddFromString env chunk q)) (TestPlan_Init d p) pre) post"
    using r a by (simp add: InitFromFile_def Let_def)
  then show "SuiteMap (snd (InitFromFile env path d p)) n = Some s"
    using a load_chunks_keeps by simp
qed

lemma Split_plan: "Split ''a---!---a---b'' ''---'' = [''a'', ''!'', ''a'', ''b'']"
  by (simp add: Split_def)

theorem InitFromFile_discards_errors_witness:
  "fst (InitFromFile envL ''plan.yml'' 0 plan0) = None
   \<and> fst (AddFromString envL ''!'' (snd (AddFromString envL ''a'' (TestPlan_Init 0 plan0)))) = Some (DecodeError ''!'')
   \<and> SuiteMap (snd (InitFromFile envL ''plan.yml'' 0 plan0)) ''A''
       = Some (CreateTestSuite ''A'' [test0\<lparr>Test.Name := ''get''\<rparr>] plan0)
   \<and> SuiteList (snd (InitFromFile envL ''plan.yml'' 0 plan0)) = [''A'', ''B'']
   \<and> fst (InitFromFile envL ''none.yml'' 0 plan0) = Some (FileError ''none.yml'')"
proof -
  have i: "TestPlan_Init 0 plan0 = plan0" by (simp add: TestPlan_Init_def plan0_def)
  have r: "ReadFile envL ''plan.yml'' = Inr ''a---!---a---b''" by (simp add: envL_def)
  have r2: "ReadFile envL ''none.yml'' = Inl (FileError ''none.yml'')" by (simp add: envL_def env0_def)
  note T = InitFromFile_discards_errors [where env = envL and d = 0 and p = plan0]
  from T [where path = "''plan.yml''"] r
  have 1: "fst (InitFromFile envL ''plan.yml'' 0 plan0) = None"
    and 2: "snd (InitFromFile envL ''plan.yml'' 0 plan0)
           = foldl (\<lambda>q chunk. snd (AddFromString envL chunk q)) (TestPlan_Init 0 plan0) (Split ''a---!---a---b'' ''---'')"
    and 3: "\<forall>pre post n s.
             Split ''a---!---a---b'' ''---'' = pre @ post
           \<and> SuiteMap (foldl (\<lambda>q chunk. snd (AddFromString envL chunk q)) (TestPlan_Init 0 plan0) pre) n = Some s
           \<longrightarrow> SuiteMap (snd (InitFromFile envL ''plan.yml'' 0 plan0)) n = Some s"
    by blast+
  from T [where path = "''none.yml''"] r2
  have 4: "fst (InitFromFile envL ''none.yml'' 0 plan0) = Some (FileError ''none.yml'')" by blast
  have 5: "SuiteMap (snd (InitFromFile envL ''plan.yml'' 0 plan0)) ''A''
       = Some (CreateTestSuite ''A'' [test0\<lparr>Test.Name := ''get''\<rparr>] plan0)"
    using 3 [rule_format, of "[''a'']" "[''!'', ''a'', ''b'']" "''A''"] by (simp add: Split_plan i load_a)
  have 6: "fst (AddFromString envL ''!'' (snd (AddFromString envL ''a'' (TestPlan_Init 0 plan0)))) = Some (DecodeError ''!'')"
    by (simp add: AddFromString_def envL_def)
  have 7: "SuiteList (snd (InitFromFile envL ''plan.yml'' 0 plan0)) = [''A'', ''B'']"
    unfolding 2 Split_plan i
    by (simp add: load_a) (simp add: AddFromString_def envL_def env0_def addSuites_Cons MeqaInit_def plan0_def)
  show ?thesis using 1 4 5 6 7 by simp
qed

subsection \<open>The execution engine: skipping, reference steps, declarations\<close>

text \<open>
  C1. Let the suite \<open>name\<close> have \<open>N\<close> steps, all concrete, and let \<open>dups\<close> be the
  duplicates that its first \<open>k + 1\<close> steps produce when they run in order. If the
  steps before \<open>k\<close> let the loop go on and step \<open>k\<close> is a POST without path
  parameters whose response has a status from 400 to 599, then \<open>Run\<close> returns, the
  counter \<open>Skipped\<close> is \<open>N - k - 1\<close>, and the tests that were executed and appended
  to the history are exactly \<open>dups\<close>: the steps \<open>0\<close> to \<open>k\<close> and none after.
\<close>

theorem cascading_skip:
  assumes "SuiteMap (plan st) name = Some tc"
    and "\<forall>t \<in> set (Tests tc). Ref t = [] \<and> Test.Name t \<noteq> MeqaInit"
    and "k < length (Tests tc)"
    and "dups = replay env name parentTest (take (Suc k) (Tests tc))
           (updSuite name (\<lambda>c. c\<lparr>TestSuite.db := Some (CloneSchema env (TestPlan.db (plan st)))\<rparr>) st)"
    and "\<forall>j < k. continues (dups ! j)"
    and "Test.Method (dups ! k) = MethodPost" and "PathParams (dups ! k) = Map.empty"
    and "resp (dups ! k) = Some status" and "400 \<le> status" and "status < 600"
  shows "\<exists>rc e st'. Run (Suc fuel) env name parentTest st = Return rc e st'
      \<and> count rc Skipped = int (length (Tests tc)) - int k - 1
      \<and> resultList (plan st') = resultList (plan st) @ dups
      \<and> History st' = History st @ dups
      \<and> length dups = Suc k"
proof -
  let ?st1 = "updSuite name (\<lambda>c. c\<lparr>TestSuite.db := Some (CloneSchema env (TestPlan.db (plan st)))\<rparr>) st"
  let ?tc1 = "tc\<lparr>TestSuite.db := Some (CloneSchema env (TestPlan.db (plan st)))\<rparr>"
  let ?rc0 = "[Total \<mapsto> int (length (Tests tc)), Failed \<mapsto> 0]"
  have tc1: "SuiteMap (plan ?st1) name = Some ?tc1"
    using assms(1) by (simp add: updSuite_def deref_def)
  have ne: "Tests tc \<noteq> []" using assms(3) by auto
  have s300: "300 \<le> status" using assms(9) by simp
  from runTests_skip [where st = ?st1 and tc = ?tc1 and n = "length (Tests tc)" and k = k and i = 0
      and dups = dups and env = env and pt = parentTest and name = name and status = status
      and fuel = fuel and rc = ?rc0 and tcErr = None]
    tc1 assms(2-8) s300
  obtain rc e st2 where r:
      "runTests fuel env name parentTest (length (Tests tc)) 0 ?rc0 None ?st1 = Return rc e st2"
      "count rc Skipped = count ?rc0 Skipped + (int (length (Tests tc)) - int k - 1)"
      "resultList (plan st2) = resultList (plan ?st1) @ dups"
      "History st2 = History ?st1 @ dups"
      "length dups = Suc k - 0"
    by auto
  have "Run (Suc fuel) env name parentTest st
      = Return rc e (updSuite name (\<lambda>c. c\<lparr>TestSuite.db := None\<rparr>) st2)"
    using assms(1) ne r(1) by (simp add: Run.simps)
  moreover have "count rc Skipped = int (length (Tests tc)) - int k - 1"
    using r(2) by (simp add: count_def)
  moreover have "resultList (plan (updSuite name (\<lambda>c. c\<lparr>TestSuite.db := None\<rparr>) st2)) = resultList (plan st) @ dups"
    using r(3) by (simp add: updSuite_def)
  moreover have "History (updSuite name (\<lambda>c. c\<lparr>TestSuite.db := None\<rparr>) st2) = History st @ dups"
    using r(4) by (simp add: updSuite_def)
  ultimately show ?thesis using r(5) by simp
qed

lemma crud_replay:
  "replay envR ''crud'' NoParent
     (take (Suc 1) [test0\<lparr>Test.Name := ''list'', Test.Method := ''get''\<rparr>,
                    test0\<lparr>Test.Name := ''create'', Test.Method := ''post''\<rparr>,
                    test0\<lparr>Test.Name := ''read'', Test.Method := ''get''\<rparr>])
     (updSuite ''crud'' (\<lambda>c. c\<lparr>TestSuite.db := Some (CloneSchema envR (TestPlan.db (plan stR)))\<rparr>) stR)
   = [test0\<lparr>Test.Name := ''list'', Test.Method := ''get'', resp := Some 200\<rparr>,
      test0\<lparr>Test.Name := ''create'', Test.Method := ''post'', resp := Some 500,
            err := Some (StepError ''500''), responseError := Some (StepError ''500'')\<rparr>]"
  by (simp add: runConcrete_def Let_def envR_def env0_def parentOf_def deref_def updSuite_def stR_def
      test0_def zeroTestSuite_def Append_def plan0_def)

theorem cascading_skip_witness:
  "countAfter (Run 1 envR ''crud'' NoParent stR) Skipped = Some 1
   \<and> map_option length (resultsAfter (Run 1 envR ''crud'' NoParent stR)) = Some 2"
proof -
  let ?ts = "[test0\<lparr>Test.Name := ''list'', Test.Method := ''get''\<rparr>,
              test0\<lparr>Test.Name := ''create'', Test.Method := ''post''\<rparr>,
              test0\<lparr>Test.Name := ''read'', Test.Method := ''get''\<rparr>]"
  let ?tc = "zeroTestSuite\<lparr>TestSuite.Name := ''crud'', Tests := ?ts\<rparr>"
  let ?dups = "[test0\<lparr>Test.Name := ''list'', Test.Method := ''get'', resp := Some 200\<rparr>,
      test0\<lparr>Test.Name := ''create'', Test.Method := ''post'', resp := Some 500,
            err := Some (StepError ''500''), responseError := Some (StepError ''500'')\<rparr>]"
  have h1: "SuiteMap (plan stR) ''crud'' = Some ?tc" by (simp add: stR_def)
  have h2: "\<forall>t \<in> set (Tests ?tc). Ref t = [] \<and> Test.Name t \<noteq> MeqaInit"
    by (simp add: test0_def MeqaInit_def)
  have h3: "1 < length (Tests ?tc)" by simp
  have h4: "?dups = replay envR ''crud'' NoParent (take (Suc 1) (Tests ?tc))
           (updSuite ''crud'' (\<lambda>c. c\<lparr>TestSuite.db := Some (CloneSchema envR (TestPlan.db (plan stR)))\<rparr>) stR)"
    using crud_replay by simp
  have h5: "\<forall>j < 1. continues (?dups ! j)" by (simp add: continues_def test0_def MethodPost_def)
  have h6: "Test.Method (?dups ! 1) = MethodPost" "PathParams (?dups ! 1) = Map.empty"
    "resp (?dups ! 1) = Some 500" "(400::int) \<le> 500" "(500::int) < 600"
    by (simp_all add: test0_def MethodPost_def)
  from cascading_skip [OF h1 h2 h3 h4 h5 h6, of 0]
  obtain rc e st' where r: "Run (Suc 0) envR ''crud'' NoParent stR = Return rc e st'"
    "count rc Skipped = int (length (Tests ?tc)) - int 1 - 1"
    "resultList (plan st') = resultList (plan stR) @ ?dups"
    by blast
  have "resultList (plan stR) = []" by (simp add: stR_def plan0_def)
  then show ?thesis using r by (simp add: countAfter_def resultsAfter_def)
qed

lemma sameDecl_Ref: "list_all2 sameDecl a b \<Longrightarrow> map Ref b = map Ref a"
proof (induction rule: list_all2_induct)
  case Nil
  then show ?case by simp
next
  case (Cons x xs y ys)
  have "y = x\<lparr>Test.Strict := Test.Strict y\<rparr>" using Cons.hyps(1) by (simp add: sameDecl_def)
  then have "Ref y = Ref (x\<lparr>Test.Strict := Test.Strict y\<rparr>)" by simp
  then show ?case using Cons.IH by simp
qed

lemma declKept_refs:
  assumes "declKept st st'" and "SuiteMap (plan st) name = Some tc"
    and "\<forall>t \<in> set (Tests tc). Ref t \<noteq> []"
  shows "\<exists>tc'. SuiteMap (plan st') name = Some tc' \<and> length (Tests tc') = length (Tests tc)
           \<and> (\<forall>t \<in> set (Tests tc'). Ref t \<noteq> [])"
proof -
  obtain tc' where t: "SuiteMap (plan st') name = Some tc'" "list_all2 sameDecl (Tests tc) (Tests tc')"
    using assms(1,2) by (auto simp: declKept_def split: option.splits dest!: spec [of _ name])
  have m: "map Ref (Tests tc') = map Ref (Tests tc)" by (rule sameDecl_Ref [OF t(2)])
  have "set (map Ref (Tests tc')) = set (map Ref (Tests tc))" using m by simp
  then have "\<forall>t \<in> set (Tests tc'). Ref t \<noteq> []" using assms(3) by (metis image_iff list.set_map)
  moreover have "length (Tests tc') = length (Tests tc)" using t(2) by (simp add: list_all2_lengthD)
  ultimately show ?thesis using t(1) by blast
qed

lemma runTests_refs_only:
  "SuiteMap (plan st) name = Some tc \<Longrightarrow> \<forall>t \<in> set (Tests tc). Ref t \<noteq> [] \<Longrightarrow> n = length (Tests tc) \<Longrightarrow>
   runTests fuel env name pt n i rc0 e0 st = Return rc None st' \<Longrightarrow> rc = rc0 \<and> e0 = None"
proof (induction "n - i" arbitrary: i st tc)
  case 0
  then show ?case by (simp add: runTests_end)
next
  case (Suc d)
  then have lt: "i < n" by simp
  have d: "d = n - Suc i" using Suc.hyps(2) by simp
  have dr: "deref st name = tc" using Suc.prems(1) by (simp add: deref_def)
  have rf: "Ref (Tests (deref st name) ! i) \<noteq> []" using Suc.prems(2,3) lt dr by simp
  let ?st1 = "updTest name i (\<lambda>t. t\<lparr>Test.Strict := TestSuite.Strict (deref st name)\<rparr>) st"
  have k1: "declKept st ?st1" using declKept_updTest [OF Suc.prems(1)] rf dr by simp
  show ?case
  proof (cases "Run fuel env (Ref (Tests (deref st name) ! i)) (ParentAt name i) ?st1")
    case (Return rc' e' st'')
    have k2: "declKept st st''" using declKept_trans [OF k1 declKept_Run [OF Return]] .
    obtain tc'' where t: "SuiteMap (plan st'') name = Some tc''" "length (Tests tc'') = length (Tests tc)"
        "\<forall>t \<in> set (Tests tc''). Ref t \<noteq> []"
      using declKept_refs [OF k2 Suc.prems(1,2)] by blast
    show ?thesis
    proof (cases e')
      case None
      have "runTests fuel env name pt n (Suc i) rc0 e0 st'' = Return rc None st'"
        using Suc.prems(4) by (simp add: runTests_ref [OF lt rf] Return None)
      then show ?thesis using Suc.hyps(1) [OF d t(1) t(3)] t(2) Suc.prems(3) by simp
    next
      case (Some x)
      then show ?thesis using Suc.prems(4) by (simp add: runTests_ref [OF lt rf] Return)
    qed
  next
    case NilDereference
    then show ?thesis using Suc.prems(4) by (simp add: runTests_ref [OF lt rf])
  next
    case OutOfFuel
    then show ?thesis using Suc.prems(4) by (simp add: runTests_ref [OF lt rf])
  qed
qed

text \<open>
  C2, as the code has it. At a reference step the counters of the recursive call are
  bound to a variable of the step's own block. When the recursive call returns an
  error, \<open>Run\<close> returns at once with the counters and the error of the recursive call;
  when it returns no error, its counters are dropped and the loop goes on with the
  caller's counters as they were. So a suite made of reference steps only, when it
  returns no error, returns its own initial counters: the total of its own steps and
  zero failures.
\<close>

theorem reference_step_counters:
  "(i < n \<and> Ref (Tests (deref st name) ! i) \<noteq> []
      \<and> Run fuel env (Ref (Tests (deref st name) ! i)) (ParentAt name i)
            (updTest name i (\<lambda>t. t\<lparr>Test.Strict := TestSuite.Strict (deref st name)\<rparr>) st) = Return rc' e' st'
      \<longrightarrow> runTests fuel env name pt n i rc tcErr st =
            (case e' of Some x \<Rightarrow> Return rc' (Some x) st'
             | None \<Rightarrow> runTests fuel env name pt n (Suc i) rc tcErr st'))
   \<and> (SuiteMap (plan st) name = Some tc \<and> (\<forall>t \<in> set (Tests tc). Ref t \<noteq> [])
      \<and> Run (Suc fuel) env name pt st = Return rcs None sts
      \<longrightarrow> rcs = [Total \<mapsto> int (length (Tests tc)), Failed \<mapsto> 0])"
proof (intro conjI impI)
  assume a: "i < n \<and> Ref (Tests (deref st name) ! i) \<noteq> []
      \<and> Run fuel env (Ref (Tests (deref st name) ! i)) (ParentAt name i)
            (updTest name i (\<lambda>t. t\<lparr>Test.Strict := TestSuite.Strict (deref st name)\<rparr>) st) = Return rc' e' st'"
  then show "runTests fuel env name pt n i rc tcErr st =
            (case e' of Some x \<Rightarrow> Return rc' (Some x) st'
             | None \<Rightarrow> runTests fuel env name pt n (Suc i) rc tcErr st')"
    by (simp add: runTests_ref split: option.splits)
next
  assume a: "SuiteMap (plan st) name = Some tc \<and> (\<forall>t \<in> set (Tests tc). Ref t \<noteq> [])
      \<and> Run (Suc fuel) env name pt st = Return rcs None sts"
  let ?st1 = "updSuite name (\<lambda>c. c\<lparr>TestSuite.db := Some (CloneSchema env (TestPlan.db (plan st)))\<rparr>) st"
  let ?tc1 = "tc\<lparr>TestSuite.db := Some (CloneSchema env (TestPlan.db (plan st)))\<rparr>"
  from a have a1: "SuiteMap (plan st) name = Some tc" and a2: "\<forall>t \<in> set (Tests tc). Ref t \<noteq> []"
    and a3: "Run (Suc fuel) env name pt st = Return rcs None sts" by simp_all
  have tc1: "SuiteMap (plan ?st1) name = Some ?tc1" using a1 by (simp add: updSuite_def deref_def)
  have ne: "Tests tc \<noteq> []"
  proof
    assume "Tests tc = []"
    then show False using a1 a3 by (simp add: Run.simps)
  qed
  obtain st2 where "runTests fuel env name pt (length (Tests tc)) 0
        [Total \<mapsto> int (length (Tests tc)), Failed \<mapsto> 0] None ?st1 = Return rcs None st2"
    using a1 a3 ne by (auto simp: Run.simps split: outcome.splits)
  from runTests_refs_only [OF tc1 _ _ this] a2
  show "rcs = [Total \<mapsto> int (length (Tests tc)), Failed \<mapsto> 0]" by simp
qed

lemmas run_example_defs =
  Run.simps runTests.simps stR_def plan0_def updSuite_def updTest_def deref_def Let_def
  zeroTestSuite_def refStep_def test0_def runConcrete_def env0_def parentOf_def Append_def MeqaInit_def
  MethodPost_def incr_def count_def countAfter_def resultsAfter_def testsAfter_def

lemma run_outer_returns:
  "\<exists>rc st'. Run (Suc (Suc 0)) env0 ''outer'' NoParent stR = Return rc None st'"
  by (simp add: run_example_defs)

theorem reference_step_counters_witness:
  "countAfter (Run (Suc (Suc 0)) env0 ''outer'' NoParent stR) Total = Some 1
   \<and> countAfter (Run (Suc (Suc 0)) env0 ''outer'' NoParent stR) Failed = Some 0
   \<and> countAfter (Run (Suc (Suc 0)) env0 ''outer'' NoParent stR) Passed = Some 0"
proof -
  obtain rc st' where r: "Run (Suc (Suc 0)) env0 ''outer'' NoParent stR = Return rc None st'"
    using run_outer_returns by blast
  have h: "SuiteMap (plan stR) ''outer''
      = Some (zeroTestSuite\<lparr>TestSuite.Name := ''outer'', Tests := [refStep], TestSuite.Strict := True\<rparr>)
    \<and> (\<forall>t \<in> set (Tests (zeroTestSuite\<lparr>TestSuite.Name := ''outer'', Tests := [refStep], TestSuite.Strict := True\<rparr>)).
          Ref t \<noteq> [])
    \<and> Run (Suc (Suc 0)) env0 ''outer'' NoParent stR = Return rc None st'"
    using r by (simp add: stR_def refStep_def)
  from reference_step_counters [where st = stR and name = "''outer''" and env = env0 and pt = NoParent
      and fuel = "Suc 0" and rcs = rc and sts = st'
      and tc = "zeroTestSuite\<lparr>TestSuite.Name := ''outer'', Tests := [refStep], TestSuite.Strict := True\<rparr>"] h
  have "rc = [Total \<mapsto> int (length (Tests (zeroTestSuite\<lparr>TestSuite.Name := ''outer'', Tests := [refStep],
                TestSuite.Strict := True\<rparr>))), Failed \<mapsto> 0]"
    by blast
  then show ?thesis using r by (simp add: countAfter_def count_def)
qed

text \<open>
  The suite \<open>outer\<close> has one step, a reference to \<open>inner\<close>, whose two steps pass.
  The recursive call returns the total 2 and two passed steps; the run of \<open>outer\<close>
  returns the total 1 and no passed step: the caller's own counters, not the ones of
  the innermost call.
\<close>

theorem reference_step_counterexample:
  "countAfter (Run (Suc 0) env0 ''inner'' (ParentAt ''outer'' 0)
       (updTest ''outer'' 0 (\<lambda>t. t\<lparr>Test.Strict := True\<rparr>)
          (updSuite ''outer'' (\<lambda>c. c\<lparr>TestSuite.db := Some 0\<rparr>) stR))) Total = Some 2
   \<and> countAfter (Run (Suc 0) env0 ''inner'' (ParentAt ''outer'' 0)
       (updTest ''outer'' 0 (\<lambda>t. t\<lparr>Test.Strict := True\<rparr>)
          (updSuite ''outer'' (\<lambda>c. c\<lparr>TestSuite.db := Some 0\<rparr>) stR))) Passed = Some 2
   \<and> countAfter (Run (Suc (Suc 0)) env0 ''outer'' NoParent stR) Total = Some 1
   \<and> countAfter (Run (Suc (Suc 0)) env0 ''outer'' NoParent stR) Passed = Some 0"
  by (simp add: run_example_defs)

text \<open>
  C7, as the code has it. First, a run leaves the plan with the same suites, each with
  the same number of declared tests, and every declared test as it was but for its
  \<open>Strict\<close> flag; a test that is not a reference step is left exactly as it was, so
  the parameters of a declared test are never changed by a run. Second, at a concrete
  step the loop makes a duplicate of the declared test with \<open>SchemaDuplicate\<close>, gives
  it the \<open>Strict\<close> flag of the suite, the state of the parent and the resolved
  parameters, and hands it to the step runner; what the runner returns is recorded in
  the result list and in the history, and the loop goes on, or stops, from a state
  whose suites are the ones before the step. Third, at a reference step the recursive
  call starts from the state in which the declared test of the step has the \<open>Strict\<close>
  flag of its suite and nothing else has changed (line 430).
\<close>

theorem declared_tests_kept:
  "(Run fuel env name parentTest st = Return rcr er st' \<and> SuiteMap (plan st) m = Some tm \<longrightarrow>
      (\<exists>tm'. SuiteMap (plan st') m = Some tm'
         \<and> length (Tests tm') = length (Tests tm)
         \<and> (\<forall>j < length (Tests tm).
               Tests tm' ! j = (Tests tm ! j)\<lparr>Test.Strict := Test.Strict (Tests tm' ! j)\<rparr>
             \<and> (Ref (Tests tm ! j) = [] \<longrightarrow> Tests tm' ! j = Tests tm ! j))))
   \<and> (SuiteMap (plan st) name = Some tc \<and> i < n \<and> i < length (Tests tc)
        \<and> Ref (Tests tc ! i) = [] \<and> Test.Name (Tests tc ! i) \<noteq> MeqaInit \<longrightarrow>
      (let d1 = (SchemaDuplicate env (Tests tc ! i))\<lparr>Test.Strict := TestSuite.Strict tc\<rparr>;
           d2 = (case parentOf st parentTest of None \<Rightarrow> d1 | Some pt \<Rightarrow> CopyParent env d1 pt);
           d3 = ResolveHistoryParameters env d2 (History st);
           d4 = (case parentOf st parentTest of None \<Rightarrow> d3 | Some pt \<Rightarrow> d3\<lparr>Test.Name := Test.Name pt\<rparr>);
           out = TestRun env (st\<lparr>History := History st @ [d4]\<rparr>) tc d4;
           e = snd (snd out);
           dup = (fst out)\<lparr>err := e\<rparr>;
           st1 = st\<lparr>History := History st @ [dup],
                    plan := (plan st)\<lparr>
                      NewFailures := (if fst (snd out) \<noteq> [] then NewFailures (plan st) @ fst (snd out)
                                      else NewFailures (plan st)),
                      resultList := resultList (plan st) @ [dup]\<rparr>\<rparr>
       in runTests fuel env name parentTest n i rc tcErr st =
            (if Test.Method dup = MethodPost \<and> PathParams dup = Map.empty
             then (case resp dup of
                     None \<Rightarrow> NilDereference
                   | Some status \<Rightarrow>
                       if 300 \<le> status
                       then Return ((countStep rc dup e)(Skipped \<mapsto> count (countStep rc dup e) Skipped
                                      + (int (length (Tests tc)) - int i - 1)))
                              (firstError tcErr e) st1
                       else runTests fuel env name parentTest n (Suc i) (countStep rc dup e) (firstError tcErr e) st1)
             else runTests fuel env name parentTest n (Suc i) (countStep rc dup e) (firstError tcErr e) st1)
          \<and> SuiteMap (plan st1) = SuiteMap (plan st)))
   \<and> (SuiteMap (plan st) name = Some tc \<and> i < n \<and> i < length (Tests tc) \<and> Ref (Tests tc ! i) \<noteq> [] \<longrightarrow>
      runTests fuel env name parentTest n i rc tcErr st =
        (case Run fuel env (Ref (Tests tc ! i)) (ParentAt name i)
                (st\<lparr>plan := (plan st)\<lparr>SuiteMap := (SuiteMap (plan st))(name \<mapsto>
                      tc\<lparr>Tests := (Tests tc)[i := (Tests tc ! i)\<lparr>Test.Strict := TestSuite.Strict tc\<rparr>]\<rparr>)\<rparr>\<rparr>) of
           Return rc' (Some x) s \<Rightarrow> Return rc' (Some x) s
         | Return rc' None s \<Rightarrow> runTests fuel env name parentTest n (Suc i) rc tcErr s
         | NilDereference \<Rightarrow> NilDereference
         | OutOfFuel \<Rightarrow> OutOfFuel))"
proof (intro conjI impI)
  assume a: "Run fuel env name parentTest st = Return rcr er st' \<and> SuiteMap (plan st) m = Some tm"
  then have "declKept st st'" using declKept_Run by blast
  then obtain tm' where t: "SuiteMap (plan st') m = Some tm'" "list_all2 sameDecl (Tests tm) (Tests tm')"
    using a by (auto simp: declKept_def split: option.splits dest!: spec [of _ m])
  have "length (Tests tm') = length (Tests tm)" using t(2) by (simp add: list_all2_lengthD)
  moreover have "\<forall>j < length (Tests tm). sameDecl (Tests tm ! j) (Tests tm' ! j)"
    using t(2) by (simp add: list_all2_conv_all_nth)
  ultimately show "\<exists>tm'. SuiteMap (plan st') m = Some tm'
         \<and> length (Tests tm') = length (Tests tm)
         \<and> (\<forall>j < length (Tests tm).
               Tests tm' ! j = (Tests tm ! j)\<lparr>Test.Strict := Test.Strict (Tests tm' ! j)\<rparr>
             \<and> (Ref (Tests tm ! j) = [] \<longrightarrow> Tests tm' ! j = Tests tm ! j))"
    using t(1) unfolding sameDecl_def by blast
next
  assume a: "SuiteMap (plan st) name = Some tc \<and> i < n \<and> i < length (Tests tc)
        \<and> Ref (Tests tc ! i) = [] \<and> Test.Name (Tests tc ! i) \<noteq> MeqaInit"
  then have dr: "deref st name = tc" by (simp add: deref_def)
  define d4 where "d4 = (case parentOf st parentTest of
        None \<Rightarrow> ResolveHistoryParameters env
          (case parentOf st parentTest of
             None \<Rightarrow> (SchemaDuplicate env (Tests tc ! i))\<lparr>Test.Strict := TestSuite.Strict tc\<rparr>
           | Some pt \<Rightarrow> CopyParent env ((SchemaDuplicate env (Tests tc ! i))\<lparr>Test.Strict := TestSuite.Strict tc\<rparr>) pt)
          (History st)
      | Some pt \<Rightarrow> (ResolveHistoryParameters env
          (case parentOf st parentTest of
             None \<Rightarrow> (SchemaDuplicate env (Tests tc ! i))\<lparr>Test.Strict := TestSuite.Strict tc\<rparr>
           | Some pt \<Rightarrow> CopyParent env ((SchemaDuplicate env (Tests tc ! i))\<lparr>Test.Strict := TestSuite.Strict tc\<rparr>) pt)
          (History st))\<lparr>Test.Name := Test.Name pt\<rparr>)"
  define out where "out = TestRun env (st\<lparr>History := History st @ [d4]\<rparr>) tc d4"
  define dup where "dup = (fst out)\<lparr>err := snd (snd out)\<rparr>"
  define st1 where "st1 = st\<lparr>History := History st @ [dup],
                    plan := (plan st)\<lparr>
                      NewFailures := (if fst (snd out) \<noteq> [] then NewFailures (plan st) @ fst (snd out)
                                      else NewFailures (plan st)),
                      resultList := resultList (plan st) @ [dup]\<rparr>\<rparr>"
  have rcn: "runConcrete env name parentTest (Tests (deref st name) ! i) st = (dup, snd (snd out), st1)"
    unfolding runConcrete_def dr Let_def Append_def
    by (simp add: case_prod_beta d4_def [symmetric] out_def [symmetric] dup_def [symmetric] st1_def [symmetric])
  have sm: "SuiteMap (plan st1) = SuiteMap (plan st)" by (simp add: st1_def)
  have dr1: "deref st1 name = tc" using dr sm by (simp add: deref_def)
  have cn: "Ref (Tests (deref st name) ! i) = []" "Test.Name (Tests (deref st name) ! i) \<noteq> MeqaInit" "i < n"
    using a dr by simp_all
  note step = runTests_concrete [OF cn(3) cn(1) cn(2) rcn, where fuel = fuel and rc = rc and tcErr = tcErr]
  show "(let d1 = (SchemaDuplicate env (Tests tc ! i))\<lparr>Test.Strict := TestSuite.Strict tc\<rparr>;
           d2 = (case parentOf st parentTest of None \<Rightarrow> d1 | Some pt \<Rightarrow> CopyParent env d1 pt);
           d3 = ResolveHistoryParameters env d2 (History st);
           d4 = (case parentOf st parentTest of None \<Rightarrow> d3 | Some pt \<Rightarrow> d3\<lparr>Test.Name := Test.Name pt\<rparr>);
           out = TestRun env (st\<lparr>History := History st @ [d4]\<rparr>) tc d4;
           e = snd (snd out);
           dup = (fst out)\<lparr>err := e\<rparr>;
           st1 = st\<lparr>History := History st @ [dup],
                    plan := (plan st)\<lparr>
                      NewFailures := (if fst (snd out) \<noteq> [] then NewFailures (plan st) @ fst (snd out)
                                      else NewFailures (plan st)),
                      resultList := resultList (plan st) @ [dup]\<rparr>\<rparr>
       in runTests fuel env name parentTest n i rc tcErr st =
            (if Test.Method dup = MethodPost \<and> PathParams dup = Map.empty
             then (case resp dup of
                     None \<Rightarrow> NilDereference
                   | Some status \<Rightarrow>
                       if 300 \<le> status
                       then Return ((countStep rc dup e)(Skipped \<mapsto> count (countStep rc dup e) Skipped
                                      + (int (length (Tests tc)) - int i - 1)))
                              (firstError tcErr e) st1
                       else runTests fuel env name parentTest n (Suc i) (countStep rc dup e) (firstError tcErr e) st1)
             else runTests fuel env name parentTest n (Suc i) (countStep rc dup e) (firstError tcErr e) st1)
          \<and> SuiteMap (plan st1) = SuiteMap (plan st))"
    unfolding Let_def
    using step sm dr1
    by (simp only: d4_def [symmetric] out_def [symmetric] dup_def [symmetric] st1_def [symmetric])
next
  assume a: "SuiteMap (plan st) name = Some tc \<and> i < n \<and> i < length (Tests tc) \<and> Ref (Tests tc ! i) \<noteq> []"
  then have dr: "deref st name = tc" by (simp add: deref_def)
  have u: "updTest name i (\<lambda>t. t\<lparr>Test.Strict := TestSuite.Strict tc\<rparr>) st
      = st\<lparr>plan := (plan st)\<lparr>SuiteMap := (SuiteMap (plan st))(name \<mapsto>
                      tc\<lparr>Tests := (Tests tc)[i := (Tests tc ! i)\<lparr>Test.Strict := TestSuite.Strict tc\<rparr>]\<rparr>)\<rparr>\<rparr>"
    by (simp add: updTest_def updSuite_def dr)
  have "i < n" "Ref (Tests (deref st name) ! i) \<noteq> []" using a dr by simp_all
  from runTests_ref [OF this, of fuel env parentTest rc tcErr]
  show "runTests fuel env name parentTest n i rc tcErr st =
        (case Run fuel env (Ref (Tests tc ! i)) (ParentAt name i)
                (st\<lparr>plan := (plan st)\<lparr>SuiteMap := (SuiteMap (plan st))(name \<mapsto>
                      tc\<lparr>Tests := (Tests tc)[i := (Tests tc ! i)\<lparr>Test.Strict := TestSuite.Strict tc\<rparr>]\<rparr>)\<rparr>\<rparr>) of
           Return rc' (Some x) s \<Rightarrow> Return rc' (Some x) s
         | Return rc' None s \<Rightarrow> runTests fuel env name parentTest n (Suc i) rc tcErr s
         | NilDereference \<Rightarrow> NilDereference
         | OutOfFuel \<Rightarrow> OutOfFuel)"
    by (simp add: dr u)
qed

theorem declared_tests_kept_witness:
  "testsAfter (Run (Suc (Suc 0)) env0 ''outer'' NoParent stR) ''inner''
     = Some [test0\<lparr>Test.Name := ''get'', Test.Method := ''get''\<rparr>,
             test0\<lparr>Test.Name := ''put'', Test.Method := ''put''\<rparr>]
   \<and> runTests 0 env0 ''inner'' NoParent 2 0 Map.empty None stR
     = runTests 0 env0 ''inner'' NoParent 2 (Suc 0) [Passed \<mapsto> 1] None
         (stR\<lparr>History := [test0\<lparr>Test.Name := ''get'', Test.Method := ''get'', resp := Some 200\<rparr>],
              plan := (plan stR)\<lparr>resultList := [test0\<lparr>Test.Name := ''get'', Test.Method := ''get'', resp := Some 200\<rparr>]\<rparr>\<rparr>)
   \<and> runTests (Suc 0) env0 ''outer'' NoParent 1 0 Map.empty None stR
     = (case Run (Suc 0) env0 ''inner'' (ParentAt ''outer'' 0)
              (stR\<lparr>plan := (plan stR)\<lparr>SuiteMap := (SuiteMap (plan stR))(''outer'' \<mapsto>
                   zeroTestSuite\<lparr>TestSuite.Name := ''outer'', Tests := [refStep\<lparr>Test.Strict := True\<rparr>],
                                  TestSuite.Strict := True\<rparr>)\<rparr>\<rparr>) of
          Return rc' (Some x) s \<Rightarrow> Return rc' (Some x) s
        | Return rc' None s \<Rightarrow> runTests (Suc 0) env0 ''outer'' NoParent 1 (Suc 0) Map.empty None s
        | NilDereference \<Rightarrow> NilDereference
        | OutOfFuel \<Rightarrow> OutOfFuel)"
proof (intro conjI)
  let ?ts = "[test0\<lparr>Test.Name := ''get'', Test.Method := ''get''\<rparr>,
              test0\<lparr>Test.Name := ''put'', Test.Method := ''put''\<rparr>]"
  let ?tc = "zeroTestSuite\<lparr>TestSuite.Name := ''inner'', Tests := ?ts\<rparr>"
  obtain rc st' where r: "Run (Suc (Suc 0)) env0 ''outer'' NoParent stR = Return rc None st'"
    using run_outer_returns by blast
  have h: "SuiteMap (plan stR) ''inner'' = Some ?tc" by (simp add: stR_def)
  from declared_tests_kept [where fuel = "Suc (Suc 0)" and env = env0 and name = "''outer''"
      and parentTest = NoParent and st = stR and rcr = rc and er = None and st' = st'
      and m = "''inner''" and tm = ?tc, THEN conjunct1] r h
  obtain tc' where t: "SuiteMap (plan st') ''inner'' = Some tc'" "length (Tests tc') = length (Tests ?tc)"
    "\<forall>i < length (Tests ?tc). Ref (Tests ?tc ! i) = [] \<longrightarrow> Tests tc' ! i = Tests ?tc ! i"
    by blast
  have "\<forall>i < length (Tests ?tc). Ref (Tests ?tc ! i) = []"
    by (simp add: test0_def less_Suc_eq)
  then have "\<forall>i < length (Tests ?tc). Tests tc' ! i = Tests ?tc ! i" using t(3) by blast
  then have "Tests tc' = Tests ?tc" using t(2) by (simp add: list_eq_iff_nth_eq)
  then show "testsAfter (Run (Suc (Suc 0)) env0 ''outer'' NoParent stR) ''inner'' = Some ?ts"
    using r t(1) by (simp add: testsAfter_def deref_def)
next
  let ?tc = "zeroTestSuite\<lparr>TestSuite.Name := ''inner'',
                 Tests := [test0\<lparr>Test.Name := ''get'', Test.Method := ''get''\<rparr>,
                           test0\<lparr>Test.Name := ''put'', Test.Method := ''put''\<rparr>]\<rparr>"
  have h: "SuiteMap (plan stR) ''inner'' = Some ?tc \<and> 0 < (2::nat) \<and> 0 < length (Tests ?tc)
        \<and> Ref (Tests ?tc ! 0) = [] \<and> Test.Name (Tests ?tc ! 0) \<noteq> MeqaInit"
    by (simp add: stR_def test0_def MeqaInit_def)
  from declared_tests_kept [where st = stR and name = "''inner''" and tc = ?tc and i = 0 and n = 2
      and env = env0 and parentTest = NoParent and fuel = 0 and rc = Map.empty and tcErr = None,
      THEN conjunct2, THEN conjunct1, rule_format, OF h]
  show "runTests 0 env0 ''inner'' NoParent 2 0 Map.empty None stR
     = runTests 0 env0 ''inner'' NoParent 2 (Suc 0) [Passed \<mapsto> 1] None
         (stR\<lparr>History := [test0\<lparr>Test.Name := ''get'', Test.Method := ''get'', resp := Some 200\<rparr>],
              plan := (plan stR)\<lparr>resultList := [test0\<lparr>Test.Name := ''get'', Test.Method := ''get'', resp := Some 200\<rparr>]\<rparr>\<rparr>)"
    by (simp add: Let_def env0_def parentOf_def test0_def MethodPost_def countStep_def firstError_def
        incr_def count_def stR_def plan0_def zeroTestSuite_def)
next
  let ?tc = "zeroTestSuite\<lparr>TestSuite.Name := ''outer'', Tests := [refStep], TestSuite.Strict := True\<rparr>"
  have h: "SuiteMap (plan stR) ''outer'' = Some ?tc \<and> 0 < (1::nat) \<and> 0 < length (Tests ?tc)
        \<and> Ref (Tests ?tc ! 0) \<noteq> []"
    by (simp add: stR_def refStep_def)
  from declared_tests_kept [where st = stR and name = "''outer''" and tc = ?tc and i = 0 and n = 1
      and env = env0 and parentTest = NoParent and fuel = "Suc 0" and rc = Map.empty and tcErr = None,
      THEN conjunct2, THEN conjunct2, rule_format, OF h]
  show "runTests (Suc 0) env0 ''outer'' NoParent 1 0 Map.empty None stR
     = (case Run (Suc 0) env0 ''inner'' (ParentAt ''outer'' 0)
              (stR\<lparr>plan := (plan stR)\<lparr>SuiteMap := (SuiteMap (plan stR))(''outer'' \<mapsto>
                   zeroTestSuite\<lparr>TestSuite.Name := ''outer'', Tests := [refStep\<lparr>Test.Strict := True\<rparr>],
                                  TestSuite.Strict := True\<rparr>)\<rparr>\<rparr>) of
          Return rc' (Some x) s \<Rightarrow> Return rc' (Some x) s
        | Return rc' None s \<Rightarrow> runTests (Suc 0) env0 ''outer'' NoParent 1 (Suc 0) Map.empty None s
        | NilDereference \<Rightarrow> NilDereference
        | OutOfFuel \<Rightarrow> OutOfFuel)"
    by (simp add: refStep_def zeroTestSuite_def)
qed

text \<open>
  The declared reference step of \<open>outer\<close> is not strict and its suite is: after the
  run the declared step is strict.
\<close>

theorem declared_tests_counterexample:
  "testsAfter (Run (Suc (Suc 0)) env0 ''outer'' NoParent stR) ''outer'' = Some [refStep\<lparr>Test.Strict := True\<rparr>]
   \<and> Tests (deref stR ''outer'') = [refStep]
   \<and> Test.Strict refStep = False"
  by (simp add: run_example_defs)

subsection \<open>Reporting\<close>

text \<open>
  C8, as the code has it. Next to the counters, \<open>PrintSummary\<close> prints under the name
  of the fuzz failures the length of \<open>NewFailures\<close>: the number of records that were
  accumulated, each occurrence counted. That is at least the number of distinct
  records; nothing in the summary collapses records that are equal.
\<close>

theorem PrintSummary_fuzz_failures:
  "reported FuzzFails (PrintSummary p) = [int (length (NewFailures p))]
   \<and> int (card (set (NewFailures p))) \<le> int (length (NewFailures p))
   \<and> reported Passed (PrintSummary p) = [count (ResultCounts p) Passed]
   \<and> reported Failed (PrintSummary p) = [count (ResultCounts p) Failed]
   \<and> reported Skipped (PrintSummary p) = [count (ResultCounts p) Skipped]
   \<and> reported SchemaMismatch (PrintSummary p) = [count (ResultCounts p) SchemaMismatch]
   \<and> reported Total (PrintSummary p) = [count (ResultCounts p) Total]
   \<and> reported FuzzTotal (PrintSummary p) = [count (ResultCounts p) FuzzTotal]"
  by (simp add: PrintSummary_def card_length)

text \<open>
  The same record observed twice: the summary prints 2, and there is one distinct
  record, with one distinct fuzz value.
\<close>

theorem PrintSummary_counterexample:
  "reported FuzzFails (PrintSummary (plan0\<lparr>NewFailures := [payA, payA]\<rparr>)) = [2]
   \<and> card (set (NewFailures (plan0\<lparr>NewFailures := [payA, payA]\<rparr>))) = 1
   \<and> card (fuzzValueOf ` set (NewFailures (plan0\<lparr>NewFailures := [payA, payA]\<rparr>))) = 1"
  by (simp add: PrintSummary_def)

end
